theory Spec2Isabelle
  imports Complex_Main
begin

section \<open>Numbers\<close>

text \<open>
  The services compute on two kinds of numbers.

  \<^item> \<open>BigNumber\<close> values of the bignumber.js library.  A finite BigNumber is an exact
    decimal, modelled as a rational.  \<open>plus\<close>, \<open>minus\<close>, \<open>multipliedBy\<close> and \<open>pow\<close> with
    a natural exponent are exact; \<open>dividedBy\<close> rounds the quotient to \<open>DECIMAL_PLACES\<close>
    (the library default, 20) decimals in the configured rounding mode, which
    \<open>config/constants.js\<close> sets to \<open>ROUND_DOWN\<close> (towards zero).  Where a division by
    zero can be reached, its \<open>Infinity\<close> is modelled at that place.

  \<^item> JavaScript numbers, which are IEEE 754 binary64 values.  Where the code computes
    with them (\<open>price-normalizer.js\<close>, and the subtraction \<open>100 - slippagePercent\<close> of the
    trade simulator) they are the type \<open>double\<close> below, with correctly rounded
    operations.  Where a number is only handed to bignumber.js (thresholds, percentages,
    the fee rate) it is a \<open>number\<close>: the decimal value that bignumber.js reads from it.
    The remaining results of double arithmetic (the gas estimate of the trade simulator,
    the \<open>priceImpact\<close> entry of a candidate's metadata, the rates reported by the profit
    calculator) are kept as exact decimals; no statement below depends on their last
    digits.
\<close>

type_synonym BigNumber = rat
type_synonym number = rat

definition DECIMAL_PLACES :: nat where
  "DECIMAL_PLACES = 20"

definition round_down :: "rat \<Rightarrow> BigNumber" where
  "round_down x =
     (if 0 \<le> x then of_int \<lfloor>x * 10 ^ DECIMAL_PLACES\<rfloor> / 10 ^ DECIMAL_PLACES
      else - (of_int \<lfloor>- x * 10 ^ DECIMAL_PLACES\<rfloor> / 10 ^ DECIMAL_PLACES))"

definition dividedBy :: "BigNumber \<Rightarrow> BigNumber \<Rightarrow> BigNumber" where
  "dividedBy x y = round_down (x / y)"

subsection \<open>IEEE doubles\<close>

text \<open>
  A double is a finite value (a rational; zero stands for \<open>+0\<close>), \<open>-0\<close>, an infinity or
  \<open>NaN\<close>.  \<open>toDouble\<close> rounds an exact result to the nearest double, ties to the even
  significand: 53 significant bits for a normal value, multiples of \<open>2^-1074\<close> below
  \<open>2^-1022\<close>, an infinity from \<open>2^1024\<close> on.  Its first argument is the sign given to an
  exact zero.  \<open>lg2\<close> is the binary exponent of a positive rational below \<open>2^1024\<close>.
\<close>

datatype double = Fin rat | NegZero | PInf | NInf | NaN

definition pow2 :: "int \<Rightarrow> rat" where
  "pow2 k = (if 0 \<le> k then 2 ^ nat k else 1 / 2 ^ nat (- k))"

fun lg2 :: "nat \<Rightarrow> rat \<Rightarrow> int" where
  "lg2 fuel x =
     (if fuel = 0 then 0
      else if 2 \<le> x then lg2 (fuel - 1) (x / 2) + 1
      else if x < 1 then lg2 (fuel - 1) (x * 2) - 1
      else 0)"

declare lg2.simps [simp del]

definition roundHalfEven :: "rat \<Rightarrow> int" where
  "roundHalfEven y =
     (let f = \<lfloor>y\<rfloor>; d = y - of_int f
      in if d < 1 / 2 then f else if 1 / 2 < d then f + 1
         else if even f then f else f + 1)"

definition roundTo :: "int \<Rightarrow> rat \<Rightarrow> rat" where
  "roundTo k a = of_int (roundHalfEven (a / pow2 k)) * pow2 k"

definition toDouble :: "bool \<Rightarrow> rat \<Rightarrow> double" where
  "toDouble negativeZero x =
     (if x = 0 then (if negativeZero then NegZero else Fin 0)
      else if pow2 1024 \<le> \<bar>x\<bar> then (if x < 0 then NInf else PInf)
      else
        let r = (if \<bar>x\<bar> < pow2 (- 1022) then roundTo (- 1074) \<bar>x\<bar>
                 else roundTo (lg2 1024 \<bar>x\<bar> - 52) \<bar>x\<bar>)
        in if pow2 1024 \<le> r then (if x < 0 then NInf else PInf)
           else if r = 0 then (if x < 0 then NegZero else Fin 0)
           else Fin (if x < 0 then - r else r))"

definition finiteValue :: "double \<Rightarrow> rat option" where
  "finiteValue a = (case a of Fin x \<Rightarrow> Some x | NegZero \<Rightarrow> Some 0 | _ \<Rightarrow> None)"

definition isNegative :: "double \<Rightarrow> bool" where
  "isNegative a = (case a of Fin x \<Rightarrow> x < 0 | NegZero \<Rightarrow> True | NInf \<Rightarrow> True | _ \<Rightarrow> False)"

definition signedInfinity :: "bool \<Rightarrow> double" where
  "signedInfinity negative = (if negative then NInf else PInf)"

definition signedZero :: "bool \<Rightarrow> double" where
  "signedZero negative = (if negative then NegZero else Fin 0)"

definition dneg :: "double \<Rightarrow> double" where
  "dneg a = (case a of
       Fin x \<Rightarrow> if x = 0 then NegZero else Fin (- x)
     | NegZero \<Rightarrow> Fin 0 | PInf \<Rightarrow> NInf | NInf \<Rightarrow> PInf | NaN \<Rightarrow> NaN)"

text \<open>\<open>Math.abs\<close>.\<close>

definition dabs :: "double \<Rightarrow> double" where
  "dabs a = (case a of
       Fin x \<Rightarrow> Fin \<bar>x\<bar> | NegZero \<Rightarrow> Fin 0 | PInf \<Rightarrow> PInf | NInf \<Rightarrow> PInf | NaN \<Rightarrow> NaN)"

text \<open>
  \<open>a + b\<close>, \<open>a - b\<close>, \<open>a * b\<close> and \<open>a / b\<close>.  An exact zero sum is \<open>-0\<close> only when both
  operands are negative zeros; the sign of a zero or infinite product or quotient is
  the exclusive or of the operands' signs.
\<close>

definition dadd :: "double \<Rightarrow> double \<Rightarrow> double" where
  "dadd a b =
     (if a = NaN \<or> b = NaN then NaN
      else case (finiteValue a, finiteValue b) of
          (Some x, Some y) \<Rightarrow> toDouble (isNegative a \<and> isNegative b) (x + y)
        | (Some x, None) \<Rightarrow> b
        | (None, Some y) \<Rightarrow> a
        | (None, None) \<Rightarrow> if a = b then a else NaN)"

definition dsub :: "double \<Rightarrow> double \<Rightarrow> double" where
  "dsub a b = dadd a (dneg b)"

definition dmul :: "double \<Rightarrow> double \<Rightarrow> double" where
  "dmul a b =
     (if a = NaN \<or> b = NaN then NaN
      else case (finiteValue a, finiteValue b) of
          (Some x, Some y) \<Rightarrow> toDouble (isNegative a \<noteq> isNegative b) (x * y)
        | (Some x, None) \<Rightarrow>
            if x = 0 then NaN else signedInfinity (isNegative a \<noteq> isNegative b)
        | (None, Some y) \<Rightarrow>
            if y = 0 then NaN else signedInfinity (isNegative a \<noteq> isNegative b)
        | (None, None) \<Rightarrow> signedInfinity (isNegative a \<noteq> isNegative b))"

definition ddiv :: "double \<Rightarrow> double \<Rightarrow> double" where
  "ddiv a b =
     (if a = NaN \<or> b = NaN then NaN
      else case (finiteValue a, finiteValue b) of
          (Some x, Some y) \<Rightarrow>
            if y = 0 then
              (if x = 0 then NaN else signedInfinity (isNegative a \<noteq> isNegative b))
            else toDouble (isNegative a \<noteq> isNegative b) (x / y)
        | (Some x, None) \<Rightarrow> signedZero (isNegative a \<noteq> isNegative b)
        | (None, Some y) \<Rightarrow> signedInfinity (isNegative a \<noteq> isNegative b)
        | (None, None) \<Rightarrow> NaN)"

text \<open>\<open>a > b\<close>: false when either side is \<open>NaN\<close>; the two zeros are equal.\<close>

definition rank :: "double \<Rightarrow> (int \<times> rat) option" where
  "rank a = (case a of
       Fin x \<Rightarrow> Some (0, x) | NegZero \<Rightarrow> Some (0, 0) | PInf \<Rightarrow> Some (1, 0)
     | NInf \<Rightarrow> Some (- 1, 0) | NaN \<Rightarrow> None)"

definition dgt :: "double \<Rightarrow> double \<Rightarrow> bool" where
  "dgt a b =
     (case (rank a, rank b) of
        (Some (i, x), Some (j, y)) \<Rightarrow> j < i \<or> (i = j \<and> y < x)
      | _ \<Rightarrow> False)"

text \<open>A number is falsy when it is a zero or \<open>NaN\<close>; \<open>x === 0\<close> holds of both zeros.\<close>

definition isZero :: "double \<Rightarrow> bool" where
  "isZero a \<longleftrightarrow> a = Fin 0 \<or> a = NegZero"

definition orZero :: "double \<Rightarrow> double" where
  "orZero a = (if isZero a \<or> a = NaN then Fin 0 else a)"

subsection \<open>helpers.js\<close>

definition formatTokenAmount :: "BigNumber \<Rightarrow> nat \<Rightarrow> BigNumber" where
  "formatTokenAmount amount decimals = dividedBy amount (10 ^ decimals)"

definition parseTokenAmount :: "BigNumber \<Rightarrow> nat \<Rightarrow> BigNumber" where
  "parseTokenAmount amount decimals = amount * 10 ^ decimals"

definition fromWei :: "BigNumber \<Rightarrow> BigNumber" where
  "fromWei amount = dividedBy amount (10 ^ 18)"

definition calculateROI :: "BigNumber \<Rightarrow> BigNumber \<Rightarrow> BigNumber" where
  "calculateROI profit investment =
     (if investment = 0 then 0 else dividedBy profit investment * 100)"

definition getGasPriceWithBuffer :: "BigNumber \<Rightarrow> number \<Rightarrow> BigNumber" where
  "getGasPriceWithBuffer baseGasPrice bufferPercentage =
     baseGasPrice * dividedBy (100 + bufferPercentage) 100"

definition meetsProfitThreshold :: "BigNumber \<Rightarrow> number \<Rightarrow> bool" where
  "meetsProfitThreshold profit threshold \<longleftrightarrow> profit \<ge> threshold"

section \<open>Price cache (PriceFetcher)\<close>

record PriceData =
  pd_dex :: string
  pd_tokenA :: string
  pd_tokenB :: string
  pd_feeTier :: nat
  pd_price :: BigNumber
  pd_liquidity :: string
  pd_blockNumber :: int
  pd_timestamp :: int

text \<open>
  \<open>prices\<close> is a JavaScript \<open>Map\<close>.  The newer simple scan iterates it, and a \<open>Map\<close>
  iterates in insertion order, so it is an association list: \<open>get\<close> is \<open>map_of\<close>, and \<open>set\<close>
  replaces the value of a key in place or appends a new key.  \<open>priceHistory\<close> is only
  looked up.
\<close>

record PriceFetcher =
  prices :: "(string \<times> PriceData) list"
  priceHistory :: "string \<rightharpoonup> PriceData list"

fun mapSet :: "('k \<times> 'v) list \<Rightarrow> 'k \<Rightarrow> 'v \<Rightarrow> ('k \<times> 'v) list" where
  "mapSet [] k v = [(k, v)]"
| "mapSet ((k', v') # m) k v = (if k' = k then (k, v) # m else (k', v') # mapSet m k v)"

text \<open>Decimal rendering of a fee tier inside a template string.\<close>

definition digit :: "nat \<Rightarrow> char" where
  "digit n = ''0123456789'' ! n"

fun string_of_nat :: "nat \<Rightarrow> string" where
  "string_of_nat n =
     (if n < 10 then [digit n]
      else string_of_nat (n div 10) @ [digit (n mod 10)])"

declare string_of_nat.simps [simp del]

definition getPriceKey :: "string \<Rightarrow> string \<Rightarrow> string \<Rightarrow> nat \<Rightarrow> string" where
  "getPriceKey dexName tokenA tokenB feeTier =
     dexName @ '':'' @ tokenA @ ''-'' @ tokenB @ '':'' @ string_of_nat feeTier"

text \<open>
  \<open>getPrice\<close>: with a (truthy) fee tier the entry of that key; otherwise the first entry
  found in the tier order 500, 3000, 10000.
\<close>

fun firstAvailable :: "(string \<times> PriceData) list \<Rightarrow> string \<Rightarrow> string \<Rightarrow> string \<Rightarrow> nat list
    \<Rightarrow> PriceData option" where
  "firstAvailable ps dexName tokenA tokenB [] = None"
| "firstAvailable ps dexName tokenA tokenB (tier # tiers) =
     (case map_of ps (getPriceKey dexName tokenA tokenB tier) of
        Some p \<Rightarrow> Some p
      | None \<Rightarrow> firstAvailable ps dexName tokenA tokenB tiers)"

definition getPrice :: "PriceFetcher \<Rightarrow> string \<Rightarrow> string \<Rightarrow> string \<Rightarrow> nat option
    \<Rightarrow> PriceData option" where
  "getPrice pf dexName tokenA tokenB feeTier =
     (case feeTier of
        Some t \<Rightarrow>
          if t \<noteq> 0 then map_of (prices pf) (getPriceKey dexName tokenA tokenB t)
          else firstAvailable (prices pf) dexName tokenA tokenB [500, 3000, 10000]
      | None \<Rightarrow> firstAvailable (prices pf) dexName tokenA tokenB [500, 3000, 10000])"

definition queriedDexes :: "string list" where
  "queriedDexes = [''UNISWAP_V3'', ''SUSHISWAP_V3'']"

text \<open>
  \<open>getBestPrice\<close> returns \<open>{price: bestPrice, dex: bestDex}\<close>.  The two variables are
  assigned together, so the result is either both \<open>null\<close> (\<open>None\<close>) or an observation
  with the venue it was read from.
\<close>

fun bestPriceLoop :: "PriceFetcher \<Rightarrow> string \<Rightarrow> string \<Rightarrow> string list
    \<Rightarrow> (PriceData \<times> string) option \<Rightarrow> (PriceData \<times> string) option" where
  "bestPriceLoop pf tokenA tokenB [] best = best"
| "bestPriceLoop pf tokenA tokenB (d # ds) best =
     (case getPrice pf d tokenA tokenB None of
        None \<Rightarrow> bestPriceLoop pf tokenA tokenB ds best
      | Some p \<Rightarrow>
          if pd_price p > 0 then
            (case best of
               None \<Rightarrow> bestPriceLoop pf tokenA tokenB ds (Some (p, d))
             | Some (bestPrice, bestDex) \<Rightarrow>
                 if pd_price p > pd_price bestPrice
                 then bestPriceLoop pf tokenA tokenB ds (Some (p, d))
                 else bestPriceLoop pf tokenA tokenB ds best)
          else bestPriceLoop pf tokenA tokenB ds best)"

definition getBestPrice :: "PriceFetcher \<Rightarrow> string \<Rightarrow> string \<Rightarrow> (PriceData \<times> string) option" where
  "getBestPrice pf tokenA tokenB = bestPriceLoop pf tokenA tokenB queriedDexes None"

text \<open>
  \<open>getAllPrices\<close> builds an object keyed by venue name; its keys are kept in insertion
  order, so it is an association list.
\<close>

fun allPricesLoop :: "PriceFetcher \<Rightarrow> string \<Rightarrow> string \<Rightarrow> string list
    \<Rightarrow> (string \<times> PriceData) list" where
  "allPricesLoop pf tokenA tokenB [] = []"
| "allPricesLoop pf tokenA tokenB (d # ds) =
     (case getPrice pf d tokenA tokenB None of
        None \<Rightarrow> allPricesLoop pf tokenA tokenB ds
      | Some p \<Rightarrow> (d, p) # allPricesLoop pf tokenA tokenB ds)"

definition getAllPrices :: "PriceFetcher \<Rightarrow> string \<Rightarrow> string \<Rightarrow> (string \<times> PriceData) list" where
  "getAllPrices pf tokenA tokenB = allPricesLoop pf tokenA tokenB queriedDexes"

definition getAllPricesMap :: "PriceFetcher \<Rightarrow> (string \<times> PriceData) list" where
  "getAllPricesMap pf = prices pf"

section \<open>Arbitrage scanner (ArbitrageDetector)\<close>

text \<open>
  What the scanner reads from outside: the fee data of \<open>rpcManager.getGasPrice()\<close>
  (\<open>None\<close> when the call rejects, \<open>Some None\<close> when \<open>feeData.gasPrice\<close> is null), the
  configured \<open>ARBITRAGE_CONFIG.MIN_PROFIT_THRESHOLD_USD\<close>, the random identifier of
  \<open>HelperUtils.generateId()\<close> and the clock \<open>Date.now()\<close>.
\<close>

record DetectorEnv =
  feeData :: "int option option"
  MIN_PROFIT_THRESHOLD_USD :: number
  generateId :: string
  now :: int

record Metadata =
  chainId :: nat
  md_feeTier :: nat
  slippageTolerance :: number
  priceImpact :: number

record SimpleOpportunity =
  so_id :: string
  so_type :: string
  so_tokenA :: string
  so_tokenB :: string
  buyDex :: string
  sellDex :: string
  buyPrice :: BigNumber
  sellPrice :: BigNumber
  priceDifference :: BigNumber
  priceDifferencePercent :: BigNumber
  so_tradeAmount :: BigNumber
  so_expectedOutput :: BigNumber
  so_expectedProfit :: BigNumber
  so_swapFees :: BigNumber
  so_gasCost :: BigNumber
  so_totalFees :: BigNumber
  poolA :: string
  poolB :: string
  so_timestamp :: int
  so_status :: string
  so_metadata :: Metadata

definition calculateSwapFees :: "BigNumber \<Rightarrow> string \<Rightarrow> string \<Rightarrow> BigNumber" where
  "calculateSwapFees tradeAmount dexA dexB = tradeAmount * (3 / 1000 * 2)"

text \<open>A gas price of \<open>0n\<close> is falsy and replaced by the 20 gwei default, like \<open>null\<close>.\<close>

definition gasPriceOrDefault :: "int option \<Rightarrow> int" where
  "gasPriceOrDefault g =
     (case g of None \<Rightarrow> 20000000000 | Some v \<Rightarrow> if v = 0 then 20000000000 else v)"

definition estimateGasCost :: "DetectorEnv \<Rightarrow> string \<Rightarrow> string \<Rightarrow> BigNumber" where
  "estimateGasCost env dexA dexB =
     (case feeData env of
        None \<Rightarrow> 10
      | Some g \<Rightarrow> fromWei (of_int (gasPriceOrDefault g * 300000)))"

text \<open>
  The selection loop of \<open>detectSimpleArbitrage\<close>.  Every cached observation carries a
  BigNumber price, so the guard \<open>!priceData.price\<close> never fires; observations with price
  zero are skipped.
\<close>

fun bestBuySellLoop :: "(string \<times> PriceData) list \<Rightarrow> PriceData option \<times> PriceData option
    \<Rightarrow> PriceData option \<times> PriceData option" where
  "bestBuySellLoop [] acc = acc"
| "bestBuySellLoop ((dex, priceData) # rest) (bestBuy, bestSell) =
     (if pd_price priceData = 0 then bestBuySellLoop rest (bestBuy, bestSell)
      else bestBuySellLoop rest
        (case bestBuy of
           None \<Rightarrow> Some priceData
         | Some b \<Rightarrow> if pd_price priceData < pd_price b then Some priceData else Some b,
         case bestSell of
           None \<Rightarrow> Some priceData
         | Some s \<Rightarrow> if pd_price priceData > pd_price s then Some priceData else Some s))"

definition poolAddress :: "string \<Rightarrow> string \<Rightarrow> string \<Rightarrow> string" where
  "poolAddress dex tokenA tokenB = ''pool_'' @ dex @ ''_'' @ tokenA @ ''_'' @ tokenB"

definition detectSimpleArbitrage :: "DetectorEnv \<Rightarrow> PriceFetcher \<Rightarrow> string \<Rightarrow> string
    \<Rightarrow> SimpleOpportunity option" where
  "detectSimpleArbitrage env pf tokenA tokenB =
     (let ps = getAllPrices pf tokenA tokenB in
      if length ps < 2 then None
      else
        case bestBuySellLoop ps (None, None) of
          (Some bestBuy, Some bestSell) \<Rightarrow>
            if pd_dex bestBuy = pd_dex bestSell then None
            else
              let difference = pd_price bestSell - pd_price bestBuy;
                  differencePercent = dividedBy difference (pd_price bestBuy) * 100
              in
                if differencePercent < 1 / 2 then None
                else
                  let tradeAmount = 1000;
                      swapFees = calculateSwapFees tradeAmount (pd_dex bestBuy) (pd_dex bestSell);
                      estimatedGasCost = estimateGasCost env (pd_dex bestBuy) (pd_dex bestSell);
                      totalFees = swapFees + estimatedGasCost;
                      grossProfit = tradeAmount * dividedBy differencePercent 100;
                      expectedOutput = tradeAmount + grossProfit;
                      expectedProfit = grossProfit - totalFees
                  in
                    if \<not> meetsProfitThreshold expectedProfit (MIN_PROFIT_THRESHOLD_USD env)
                    then None
                    else Some \<lparr>
                      so_id = generateId env,
                      so_type = ''simple'',
                      so_tokenA = tokenA,
                      so_tokenB = tokenB,
                      buyDex = pd_dex bestBuy,
                      sellDex = pd_dex bestSell,
                      buyPrice = pd_price bestBuy,
                      sellPrice = pd_price bestSell,
                      priceDifference = difference,
                      priceDifferencePercent = differencePercent,
                      so_tradeAmount = tradeAmount,
                      so_expectedOutput = expectedOutput,
                      so_expectedProfit = expectedProfit,
                      so_swapFees = swapFees,
                      so_gasCost = estimatedGasCost,
                      so_totalFees = totalFees,
                      poolA = poolAddress (pd_dex bestBuy) tokenA tokenB,
                      poolB = poolAddress (pd_dex bestSell) tokenA tokenB,
                      so_timestamp = now env,
                      so_status = ''detected'',
                      so_metadata = \<lparr> chainId = 1, md_feeTier = 3000,
                        slippageTolerance = 1 / 2,
                        priceImpact = min differencePercent 2 \<rparr> \<rparr>
        | _ \<Rightarrow> None)"

subsection \<open>The simple scan over all pools\<close>

text \<open>
  The repository holds a second version of the scanner, the one whose \<open>startDetection\<close> the
  server calls.  Its triangular scan, fee and gas estimates are the same text as above;
  its \<open>detectSimpleArbitrage\<close> differs.  It iterates the whole price cache
  (\<open>getAllPricesMap\<close>), keeps every observation of the pair in either direction, turns an
  observation quoted in the other direction around with \<open>new BigNumber(1).dividedBy(price)\<close>,
  and identifies a pool by the string \<open>dex_tokenA_tokenB_feeTier\<close>.

  A reciprocal cut to 20 decimals can be zero.  The spread is then a division by zero,
  which bignumber.js answers with \<open>Infinity\<close> (for a positive dividend); the comparisons
  that follow let it pass and the candidate carries \<open>Infinity\<close> as spread, output and
  profit.  These three fields are therefore extended BigNumbers.  No cached observation
  has a \<open>poolAddress\<close> property, so a pool's address is always the template string.
\<close>

datatype BigNumberX = Finite BigNumber | PosInfinity

record PoolInfo =
  pi_address :: string
  pi_liquidity :: string
  pi_blockNumber :: int

record PoolOpportunity =
  po_id :: string
  po_type :: string
  po_tokenA :: string
  po_tokenB :: string
  po_buyDex :: string
  po_sellDex :: string
  po_buyPool :: string
  po_sellPool :: string
  po_buyPrice :: BigNumber
  po_sellPrice :: BigNumber
  po_priceDifference :: BigNumber
  po_priceDifferencePercent :: BigNumberX
  po_tradeAmount :: BigNumber
  po_expectedOutput :: BigNumberX
  po_expectedProfit :: BigNumberX
  po_swapFees :: BigNumber
  po_gasCost :: BigNumber
  po_totalFees :: BigNumber
  po_poolA :: PoolInfo
  po_poolB :: PoolInfo
  po_timestamp :: int
  po_status :: string
  po_metadata :: Metadata

definition relevantPrices :: "PriceFetcher \<Rightarrow> string \<Rightarrow> string \<Rightarrow> PriceData list" where
  "relevantPrices pf tokenA tokenB =
     filter (\<lambda>priceData.
         (pd_tokenA priceData = tokenA \<and> pd_tokenB priceData = tokenB)
       \<or> (pd_tokenA priceData = tokenB \<and> pd_tokenB priceData = tokenA))
       (map snd (getAllPricesMap pf))"

text \<open>
  One pass of the selection loop computes, for an observation, the object that would
  become \<open>bestBuy\<close> or \<open>bestSell\<close>: the observation with \<open>price\<close>, \<open>tokenA\<close> and \<open>tokenB\<close>
  overwritten by the normalised ones, and its \<open>poolId\<close>.
\<close>

definition poolId :: "string \<Rightarrow> string \<Rightarrow> string \<Rightarrow> nat \<Rightarrow> string" where
  "poolId dex normalizedTokenA normalizedTokenB feeTier =
     dex @ ''_'' @ normalizedTokenA @ ''_'' @ normalizedTokenB @ ''_''
       @ string_of_nat (if feeTier = 0 then 3000 else feeTier)"

definition normalized :: "string \<Rightarrow> PriceData \<Rightarrow> PriceData \<times> string" where
  "normalized tokenA priceData =
     (if pd_tokenA priceData \<noteq> tokenA then
        (priceData\<lparr> pd_price := dividedBy 1 (pd_price priceData),
                    pd_tokenA := pd_tokenB priceData,
                    pd_tokenB := pd_tokenA priceData \<rparr>,
         poolId (pd_dex priceData) (pd_tokenB priceData) (pd_tokenA priceData)
           (pd_feeTier priceData))
      else
        (priceData,
         poolId (pd_dex priceData) (pd_tokenA priceData) (pd_tokenB priceData)
           (pd_feeTier priceData)))"

fun bestPoolLoop :: "string \<Rightarrow> PriceData list
    \<Rightarrow> (PriceData \<times> string) option \<times> (PriceData \<times> string) option
    \<Rightarrow> (PriceData \<times> string) option \<times> (PriceData \<times> string) option" where
  "bestPoolLoop tokenA [] acc = acc"
| "bestPoolLoop tokenA (priceData # rest) (bestBuy, bestSell) =
     (if pd_price priceData = 0 then bestPoolLoop tokenA rest (bestBuy, bestSell)
      else bestPoolLoop tokenA rest
        (case bestBuy of
           None \<Rightarrow> Some (normalized tokenA priceData)
         | Some b \<Rightarrow>
             if pd_price (fst (normalized tokenA priceData)) < pd_price (fst b)
             then Some (normalized tokenA priceData) else Some b,
         case bestSell of
           None \<Rightarrow> Some (normalized tokenA priceData)
         | Some s \<Rightarrow>
             if pd_price (fst (normalized tokenA priceData)) > pd_price (fst s)
             then Some (normalized tokenA priceData) else Some s))"

text \<open>\<open>poolId.split('_')[0]\<close>: the part of the string before its first underscore.\<close>

definition firstSegment :: "string \<Rightarrow> string" where
  "firstSegment s = takeWhile (\<lambda>c. c \<noteq> CHR ''_'') s"

definition poolInfo :: "PriceData \<Rightarrow> string \<Rightarrow> string \<Rightarrow> PoolInfo" where
  "poolInfo best tokenA tokenB = \<lparr>
     pi_address = poolAddress (pd_dex best) tokenA tokenB,
     pi_liquidity = (if pd_liquidity best = [] then ''1000000000000000000000''
                     else pd_liquidity best),
     pi_blockNumber = pd_blockNumber best \<rparr>"

definition detectSimpleArbitrage_pools :: "DetectorEnv \<Rightarrow> PriceFetcher \<Rightarrow> string \<Rightarrow> string
    \<Rightarrow> PoolOpportunity option" where
  "detectSimpleArbitrage_pools env pf tokenA tokenB =
     (let relevant = relevantPrices pf tokenA tokenB in
      if length relevant < 2 then None
      else
        case bestPoolLoop tokenA relevant (None, None) of
          (Some (bestBuy, buyId), Some (bestSell, sellId)) \<Rightarrow>
            if buyId = sellId then None
            else
              let difference = pd_price bestSell - pd_price bestBuy;
                  tradeAmount = 1000;
                  swapFees = calculateSwapFees tradeAmount (pd_dex bestBuy) (pd_dex bestSell);
                  estimatedGasCost = estimateGasCost env (pd_dex bestBuy) (pd_dex bestSell);
                  totalFees = swapFees + estimatedGasCost;
                  candidate = (\<lambda>differencePercent expectedOutput expectedProfit impact. \<lparr>
                      po_id = generateId env,
                      po_type = ''simple'',
                      po_tokenA = tokenA,
                      po_tokenB = tokenB,
                      po_buyDex = firstSegment buyId,
                      po_sellDex = firstSegment sellId,
                      po_buyPool = buyId,
                      po_sellPool = sellId,
                      po_buyPrice = pd_price bestBuy,
                      po_sellPrice = pd_price bestSell,
                      po_priceDifference = difference,
                      po_priceDifferencePercent = differencePercent,
                      po_tradeAmount = tradeAmount,
                      po_expectedOutput = expectedOutput,
                      po_expectedProfit = expectedProfit,
                      po_swapFees = swapFees,
                      po_gasCost = estimatedGasCost,
                      po_totalFees = totalFees,
                      po_poolA = poolInfo bestBuy tokenA tokenB,
                      po_poolB = poolInfo bestSell tokenA tokenB,
                      po_timestamp = now env,
                      po_status = ''detected'',
                      po_metadata = \<lparr> chainId = 1, md_feeTier = 3000,
                        slippageTolerance = 1 / 2, priceImpact = impact \<rparr> \<rparr>)
              in
                if pd_price bestBuy = 0 then
                  (if 0 < difference
                   then Some (candidate PosInfinity PosInfinity PosInfinity 2)
                   else None)
                else
                  let differencePercent = dividedBy difference (pd_price bestBuy) * 100 in
                  if differencePercent < 1 / 2 then None
                  else
                    let grossProfit = tradeAmount * dividedBy differencePercent 100;
                        expectedOutput = tradeAmount + grossProfit;
                        expectedProfit = grossProfit - totalFees
                    in
                      if \<not> meetsProfitThreshold expectedProfit (MIN_PROFIT_THRESHOLD_USD env)
                      then None
                      else Some (candidate (Finite differencePercent) (Finite expectedOutput)
                        (Finite expectedProfit) (min differencePercent 2))
        | _ \<Rightarrow> None)"

subsection \<open>Triangular paths\<close>

record TriangularLeg =
  leg_dex :: string
  leg_tokenIn :: string
  leg_tokenOut :: string
  leg_amount :: BigNumber
  leg_pool :: string

record TriangularOpportunity =
  to_id :: string
  to_type :: string
  to_tokenA :: string
  to_tokenB :: string
  to_tokenC :: string
  to_path :: "string list"
  effectiveRate :: BigNumber
  profitRate :: BigNumber
  to_tradeAmount :: BigNumber
  to_expectedProfit :: BigNumber
  to_expectedOutput :: BigNumber
  to_netProfit :: BigNumber
  to_swapFees :: BigNumber
  to_gasCost :: BigNumber
  to_totalFees :: BigNumber
  triangularPath :: "TriangularLeg list"
  to_timestamp :: int
  to_status :: string
  to_metadata :: Metadata

text \<open>
  \<open>feeRate * trades.length\<close> is a product of doubles: for the two legs of a simple trade
  \<open>0.003 * 2\<close> is the double \<open>0.006\<close>, for three legs \<open>0.003 * 3\<close> is the double
  \<open>0.009000000000000001\<close>, and that decimal is what \<open>multipliedBy\<close> receives.
\<close>

definition feeRateTimes :: "nat \<Rightarrow> number" where
  "feeRateTimes n = (if n = 3 then 9000000000000001 / 10 ^ 18 else 3 / 1000 * of_nat n)"

definition calculateTriangularSwapFees :: "BigNumber \<Rightarrow> (string \<times> string \<times> string) list
    \<Rightarrow> BigNumber" where
  "calculateTriangularSwapFees tradeAmount trades = tradeAmount * feeRateTimes (length trades)"

definition estimateTriangularGasCost :: "DetectorEnv \<Rightarrow> string list \<Rightarrow> BigNumber" where
  "estimateTriangularGasCost env dexs =
     (case feeData env of
        None \<Rightarrow> 15
      | Some g \<Rightarrow> fromWei (of_int (gasPriceOrDefault g * 500000)))"

definition detectTriangularPath :: "DetectorEnv \<Rightarrow> PriceFetcher \<Rightarrow> string \<times> string \<times> string
    \<Rightarrow> TriangularOpportunity option" where
  "detectTriangularPath env pf path =
     (case path of (tokenA, tokenB, tokenC) \<Rightarrow>
     (case (getBestPrice pf tokenA tokenB, getBestPrice pf tokenB tokenC,
            getBestPrice pf tokenC tokenA) of
        (Some (priceAB, dexAB), Some (priceBC, dexBC), Some (priceCA, dexCA)) \<Rightarrow>
          let priceABValue = pd_price priceAB;
              priceBCValue = pd_price priceBC;
              priceCAValue = pd_price priceCA;
              rate = priceABValue * priceBCValue * priceCAValue;
              profit = rate - 1
          in
            if profit < 5 / 1000 then None
            else
              let tradeAmount = 1000;
                  expectedProfit = tradeAmount * profit;
                  swapFees = calculateTriangularSwapFees tradeAmount
                    [(dexAB, tokenA, tokenB), (dexBC, tokenB, tokenC), (dexCA, tokenC, tokenA)];
                  estimatedGasCost = estimateTriangularGasCost env [dexAB, dexBC, dexCA];
                  totalFees = swapFees + estimatedGasCost;
                  netProfit = expectedProfit - totalFees
              in
                if \<not> meetsProfitThreshold netProfit (MIN_PROFIT_THRESHOLD_USD env) then None
                else Some \<lparr>
                  to_id = generateId env,
                  to_type = ''triangular'',
                  to_tokenA = tokenA,
                  to_tokenB = tokenB,
                  to_tokenC = tokenC,
                  to_path = [tokenA, tokenB, tokenC],
                  effectiveRate = rate,
                  profitRate = profit,
                  to_tradeAmount = tradeAmount,
                  to_expectedProfit = expectedProfit,
                  to_expectedOutput = netProfit + tradeAmount,
                  to_netProfit = netProfit,
                  to_swapFees = swapFees,
                  to_gasCost = estimatedGasCost,
                  to_totalFees = totalFees,
                  triangularPath =
                    [\<lparr> leg_dex = dexAB, leg_tokenIn = tokenA, leg_tokenOut = tokenB,
                       leg_amount = tradeAmount,
                       leg_pool = poolAddress dexAB tokenA tokenB \<rparr>,
                     \<lparr> leg_dex = dexBC, leg_tokenIn = tokenB, leg_tokenOut = tokenC,
                       leg_amount = tradeAmount * priceABValue,
                       leg_pool = poolAddress dexBC tokenB tokenC \<rparr>,
                     \<lparr> leg_dex = dexCA, leg_tokenIn = tokenC, leg_tokenOut = tokenA,
                       leg_amount = tradeAmount * priceABValue * priceBCValue,
                       leg_pool = poolAddress dexCA tokenC tokenA \<rparr>],
                  to_timestamp = now env,
                  to_status = ''detected'',
                  to_metadata = \<lparr> chainId = 1, md_feeTier = 3000,
                    slippageTolerance = 1 / 2,
                    priceImpact = min (profit * 100) 5 \<rparr> \<rparr>
      | _ \<Rightarrow> None))"

section \<open>Price normalizer (price-normalizer.js)\<close>

text \<open>
  The normalizer computes on JavaScript numbers throughout.  The reference tables are
  fields of the normalizer object.  \<open>Math.random()\<close> is the only other thing
  \<open>normalizePrice\<close> reads; its value, a double in \<open>[0, 1)\<close>, is an explicit argument.
\<close>

record PriceNormalizer =
  usdPrices :: "string \<rightharpoonup> double"
  tokenDecimals :: "string \<rightharpoonup> nat"

definition PriceNormalizer_new :: PriceNormalizer where
  "PriceNormalizer_new = \<lparr>
     usdPrices = [''WETH'' \<mapsto> Fin 2650, ''USDT'' \<mapsto> Fin 1, ''USDC'' \<mapsto> Fin 1,
       ''DAI'' \<mapsto> Fin 1, ''WBTC'' \<mapsto> Fin 65000],
     tokenDecimals = [''WETH'' \<mapsto> 18, ''USDT'' \<mapsto> 6, ''USDC'' \<mapsto> 6, ''DAI'' \<mapsto> 18,
       ''WBTC'' \<mapsto> 8] \<rparr>"

definition decimalsOr18 :: "PriceNormalizer \<Rightarrow> string \<Rightarrow> nat" where
  "decimalsOr18 pn token =
     (case tokenDecimals pn token of None \<Rightarrow> 18 | Some d \<Rightarrow> if d = 0 then 18 else d)"

definition usdPriceOr0 :: "PriceNormalizer \<Rightarrow> string \<Rightarrow> double" where
  "usdPriceOr0 pn token = (case usdPrices pn token of None \<Rightarrow> Fin 0 | Some v \<Rightarrow> orZero v)"

text \<open>
  \<open>Math.pow(10, n)\<close> for an integer \<open>n\<close>, taken as the double nearest to the exact
  power.  The language fixes \<open>Math.pow(10, 0) = 1\<close> and leaves the last bit of the other
  powers to the implementation.  The statements about \<open>normalizePrice\<close> below refer to
  the scaled price only through \<open>fixDecimalScaling\<close>, so they do not depend on that
  bit, and their examples use tokens of equal decimals, where the factor is 1.
\<close>

definition pow10 :: "int \<Rightarrow> double" where
  "pow10 d = toDouble False (if 0 \<le> d then 10 ^ nat d else 1 / 10 ^ nat (- d))"

definition fixDecimalScaling :: "PriceNormalizer \<Rightarrow> string \<Rightarrow> string \<Rightarrow> double \<Rightarrow> double" where
  "fixDecimalScaling pn tokenA tokenB rawPrice =
     (let decimalsA = decimalsOr18 pn tokenA;
          decimalsB = decimalsOr18 pn tokenB;
          decimalDiff = int decimalsA - int decimalsB;
          scalingFactor = pow10 decimalDiff
      in ddiv rawPrice scalingFactor)"

text \<open>
  \<open>displayPrice\<close> holds two strings rendered with \<open>toFixed\<close> and a type tag; the record
  keeps the tag and the numbers that are rendered.
\<close>

record DisplayPrice =
  dp_type :: string
  dp_price :: double
  dp_tokenAInUsd :: "double option"
  dp_tokenBInUsd :: "double option"

definition formatDisplayPrice :: "string \<Rightarrow> string \<Rightarrow> double \<Rightarrow> double \<Rightarrow> double
    \<Rightarrow> DisplayPrice" where
  "formatDisplayPrice tokenA tokenB rawPrice tokenAUsdPrice tokenBUsdPrice =
     (if tokenA = ''USDT'' \<or> tokenA = ''USDC'' \<or> tokenA = ''DAI''
      then \<lparr> dp_type = ''stablecoin_pair'', dp_price = rawPrice,
             dp_tokenAInUsd = None, dp_tokenBInUsd = None \<rparr>
      else \<lparr> dp_type = ''token_pair'', dp_price = rawPrice,
             dp_tokenAInUsd = Some tokenAUsdPrice, dp_tokenBInUsd = Some tokenBUsdPrice \<rparr>)"

record NormalizedPrice =
  np_rawPrice :: double
  np_scaledPrice :: double
  np_expectedRatio :: double
  wasInverted :: bool
  np_tokenAUsdPrice :: double
  np_tokenBUsdPrice :: double
  tokenBPerTokenA :: double
  tokenAPerTokenB :: double
  impliedTokenAPrice :: double
  impliedTokenBPrice :: double
  displayPrice :: DisplayPrice
  np_buyPrice :: double
  np_sellPrice :: double

text \<open>
  Step 3 of \<open>normalizePrice\<close>, the inversion test
  \<open>Math.abs(scaledPrice - expectedRatio) > Math.abs(1/scaledPrice - expectedRatio)\<close>, and
  the price it leaves, with the flag.
\<close>

definition inversionTest :: "double \<Rightarrow> double \<Rightarrow> bool" where
  "inversionTest scaledPrice expectedRatio =
     dgt (dabs (dsub scaledPrice expectedRatio))
         (dabs (dsub (ddiv (Fin 1) scaledPrice) expectedRatio))"

definition inversionStep :: "double \<Rightarrow> double \<Rightarrow> double \<times> bool" where
  "inversionStep scaledPrice expectedRatio =
     (if inversionTest scaledPrice expectedRatio
      then (ddiv (Fin 1) scaledPrice, True)
      else (scaledPrice, False))"

text \<open>
  Step 4: \<open>deviation = Math.abs(correctedPrice - expectedRatio) / expectedRatio\<close>; when it
  exceeds 0.5 the sanity clamp replaces the price by
  \<open>expectedRatio * (1 + (Math.random() - 0.5) * 0.04)\<close> and clears the flag.
\<close>

definition deviation :: "double \<Rightarrow> double \<Rightarrow> double" where
  "deviation correctedPrice expectedRatio =
     ddiv (dabs (dsub correctedPrice expectedRatio)) expectedRatio"

definition substitute :: "double \<Rightarrow> double \<Rightarrow> double" where
  "substitute random expectedRatio =
     (let variation = dmul (dsub random (Fin (1 / 2))) (toDouble False (4 / 100))
      in dmul expectedRatio (dadd (Fin 1) variation))"

definition sanityClamp :: "double \<Rightarrow> double \<Rightarrow> double \<times> bool \<Rightarrow> double \<times> bool" where
  "sanityClamp random expectedRatio cw =
     (if dgt (deviation (fst cw) expectedRatio) (Fin (1 / 2))
      then (substitute random expectedRatio, False)
      else cw)"

definition normalizePrice :: "PriceNormalizer \<Rightarrow> double \<Rightarrow> string \<Rightarrow> string \<Rightarrow> double
    \<Rightarrow> NormalizedPrice option" where
  "normalizePrice pn random tokenA tokenB rawPrice =
     (let tokenAUsdPrice = usdPriceOr0 pn tokenA;
          tokenBUsdPrice = usdPriceOr0 pn tokenB
      in
        if isZero tokenAUsdPrice \<or> isZero tokenBUsdPrice then None
        else
          let scaledPrice = fixDecimalScaling pn tokenA tokenB rawPrice;
              expectedRatio = ddiv tokenAUsdPrice tokenBUsdPrice;
              (correctedPrice, inverted) =
                sanityClamp random expectedRatio (inversionStep scaledPrice expectedRatio)
          in Some \<lparr>
               np_rawPrice = rawPrice,
               np_scaledPrice = scaledPrice,
               np_expectedRatio = expectedRatio,
               wasInverted = inverted,
               np_tokenAUsdPrice = tokenAUsdPrice,
               np_tokenBUsdPrice = tokenBUsdPrice,
               tokenBPerTokenA = correctedPrice,
               tokenAPerTokenB = ddiv (Fin 1) correctedPrice,
               impliedTokenAPrice = dmul correctedPrice tokenBUsdPrice,
               impliedTokenBPrice = ddiv tokenAUsdPrice correctedPrice,
               displayPrice = formatDisplayPrice tokenA tokenB correctedPrice
                 tokenAUsdPrice tokenBUsdPrice,
               np_buyPrice = correctedPrice,
               np_sellPrice = correctedPrice \<rparr>)"

section \<open>Configuration (config/constants.js)\<close>

record TokenInfo =
  ti_address :: string
  ti_symbol :: string
  ti_name :: string
  ti_decimals :: nat

definition SUPPORTED_TOKENS :: "string \<rightharpoonup> TokenInfo" where
  "SUPPORTED_TOKENS =
     [''WETH'' \<mapsto> \<lparr> ti_address = ''0xC02aaA39b223FE8D0A0e5C4F27eAD9083C756Cc2'',
         ti_symbol = ''WETH'', ti_name = ''Wrapped Ether'', ti_decimals = 18 \<rparr>,
      ''USDC'' \<mapsto> \<lparr> ti_address = ''0xa0b86A33E542873CD17B062F78dEAd58c6B26cC8'',
         ti_symbol = ''USDC'', ti_name = ''USD Coin'', ti_decimals = 6 \<rparr>,
      ''USDT'' \<mapsto> \<lparr> ti_address = ''0xdAC17F958D2ee523a2206206994597C13D831ec7'',
         ti_symbol = ''USDT'', ti_name = ''Tether USD'', ti_decimals = 6 \<rparr>,
      ''WBTC'' \<mapsto> \<lparr> ti_address = ''0x2260FAC5E5542a773Aa44fBCfeDf7C193bc2C599'',
         ti_symbol = ''WBTC'', ti_name = ''Wrapped Bitcoin'', ti_decimals = 8 \<rparr>,
      ''DAI'' \<mapsto> \<lparr> ti_address = ''0x6B175474E89094C44Da98b954EedeAC495271d0F'',
         ti_symbol = ''DAI'', ti_name = ''Dai Stablecoin'', ti_decimals = 18 \<rparr>]"

definition GAS_LIMITS_SINGLE_SWAP :: int where
  "GAS_LIMITS_SINGLE_SWAP = 150000"

definition FEE_TIERS_MEDIUM :: nat where
  "FEE_TIERS_MEDIUM = 3000"

section \<open>Profit calculator\<close>

text \<open>
  The calculator reads its gas price cache (\<open>None\<close> while it is still \<open>null\<close>), the
  configured gas buffer and profit threshold, and the clock.  A thrown error is \<open>Inl\<close>
  with its message.
\<close>

record ProfitEnv =
  gasPriceCache :: "int option"
  GAS_BUFFER_PERCENTAGE :: number
  pe_MIN_PROFIT_THRESHOLD_USD :: number
  pe_now :: int

record ProfitResult =
  pr_tradeAmount :: BigNumber
  pr_amountIn :: BigNumber
  pr_amountOutExpected :: BigNumber
  pr_grossProfit :: BigNumber
  pr_netProfit :: BigNumber
  pr_roi :: number
  pr_swapFees :: BigNumber
  pr_gasCost :: BigNumber
  pr_totalFees :: BigNumber
  pr_priceImpact :: number
  pr_isProfitable :: bool
  pr_meetsThreshold :: bool
  pr_timestamp :: int

definition calculateGasCost :: "ProfitEnv \<Rightarrow> int \<Rightarrow> BigNumber" where
  "calculateGasCost env gasLimit =
     (case gasPriceCache env of
        None \<Rightarrow> 10
      | Some gasPrice \<Rightarrow>
          let gasPriceGwei = dividedBy (of_int gasPrice) (10 ^ 9);
              ethPriceUSD = 2000;
              gasCostETH = dividedBy (gasPriceGwei * of_int gasLimit) (10 ^ 9);
              gasCostUSD = gasCostETH * ethPriceUSD
          in getGasPriceWithBuffer gasCostUSD (GAS_BUFFER_PERCENTAGE env))"

definition calculateOutputAmount :: "BigNumber \<Rightarrow> BigNumber \<Rightarrow> BigNumber" where
  "calculateOutputAmount amountIn price = amountIn * price"

definition calculatePriceImpact :: "BigNumber \<Rightarrow> BigNumber" where
  "calculatePriceImpact amountIn =
     (let liquidityImpact = 1 / 100;
          sizeImpact = dividedBy amountIn 100000 * (1 / 10)
      in (liquidityImpact + sizeImpact) * 100)"

definition calculateSimpleArbitrageProfit :: "ProfitEnv \<Rightarrow> SimpleOpportunity \<Rightarrow> BigNumber
    \<Rightarrow> string + ProfitResult" where
  "calculateSimpleArbitrageProfit env opportunity tradeAmount =
     (case (SUPPORTED_TOKENS (so_tokenA opportunity), SUPPORTED_TOKENS (so_tokenB opportunity)) of
        (Some tokenAInfo, Some tokenBInfo) \<Rightarrow>
          let amountIn = parseTokenAmount tradeAmount (ti_decimals tokenAInfo);
              amountOutExpected = calculateOutputAmount amountIn (buyPrice opportunity);
              swapFeeBuy = amountIn * (3 / 1000);
              swapFeeSell = amountOutExpected * (3 / 1000);
              totalSwapFees = swapFeeBuy + swapFeeSell;
              gasCost = calculateGasCost env GAS_LIMITS_SINGLE_SWAP;
              netOutput = amountOutExpected - swapFeeSell;
              inputUSD = formatTokenAmount amountIn (ti_decimals tokenAInfo);
              outputUSD = formatTokenAmount netOutput (ti_decimals tokenBInfo);
              grossProfit = outputUSD - inputUSD;
              swapFeesUSD = formatTokenAmount totalSwapFees (ti_decimals tokenAInfo);
              totalFeesUSD = swapFeesUSD + gasCost;
              netProfit = grossProfit - totalFeesUSD;
              roi = calculateROI netProfit inputUSD;
              impact = calculatePriceImpact amountIn
          in Inr \<lparr>
               pr_tradeAmount = tradeAmount,
               pr_amountIn = amountIn,
               pr_amountOutExpected = netOutput,
               pr_grossProfit = grossProfit,
               pr_netProfit = netProfit,
               pr_roi = roi,
               pr_swapFees = swapFeesUSD,
               pr_gasCost = gasCost,
               pr_totalFees = totalFeesUSD,
               pr_priceImpact = impact,
               pr_isProfitable = (netProfit > pe_MIN_PROFIT_THRESHOLD_USD env),
               pr_meetsThreshold = (netProfit > pe_MIN_PROFIT_THRESHOLD_USD env),
               pr_timestamp = pe_now env \<rparr>
      | _ \<Rightarrow> Inl ''TypeError'')"

section \<open>Trade simulator\<close>

text \<open>
  The simulator's collaborators: \<open>poolDiscovery.getPool\<close>, the quoter addresses of the
  process environment, the quoter call (\<open>Inl\<close> with the error message when loading the ABI
  or the call fails, otherwise \<open>amountOut\<close> and the optional \<open>gasEstimate\<close>), and the clock
  read by \<open>getCachedResult\<close>, by the result object and by \<open>setCachedResult\<close>.
\<close>

record Pool =
  pool_dex :: string
  pool_feeTier :: nat
  pool_address :: string

record SimulatorEnv =
  getPool :: "string \<Rightarrow> string \<Rightarrow> string \<Rightarrow> nat \<Rightarrow> Pool option"
  quoterEnv :: "string \<rightharpoonup> string"
  quoteExactInputSingle :: "string \<Rightarrow> string \<Rightarrow> string \<Rightarrow> nat \<Rightarrow> BigNumber
    \<Rightarrow> string + (int \<times> int option)"
  t_lookup :: int
  t_result :: int
  t_store :: int

record SimpleTrade =
  st_id :: string
  st_tokenA :: string
  st_tokenB :: string
  st_buyDex :: string
  st_sellDex :: string

record Trade =
  tr_dex :: string
  tr_token :: string
  tr_toToken :: string

record TriangularTrade =
  tt_id :: string
  tt_path :: "string list"
  tt_trades :: "Trade list"

datatype Opportunity = Simple SimpleTrade | Triangular TriangularTrade

record SwapResult =
  sw_success :: bool
  sw_error :: "string option"
  sw_inputAmount :: BigNumber
  sw_outputAmount :: int
  sw_gasUsed :: int
  sw_description :: string

record SimpleSwap =
  ssw_dex :: string
  ssw_inputAmount :: BigNumber
  ssw_outputAmount :: int
  ssw_gasUsed :: int
  ssw_gasCost :: BigNumber
  ssw_success :: bool

record TriangularSwap =
  tsw_leg :: nat
  tsw_dex :: string
  tsw_fromToken :: string
  tsw_toToken :: string
  tsw_inputAmount :: BigNumber
  tsw_outputAmount :: int
  tsw_gasUsed :: int
  tsw_gasCost :: BigNumber
  tsw_success :: bool

text \<open>
  A successful result has the same totals for both kinds of trade, and either
  \<open>buySwap\<close> and \<open>sellSwap\<close> or \<open>path\<close> and \<open>swaps\<close>.
\<close>

datatype SwapDetail =
  SimpleSwaps (buySwap: SimpleSwap) (sellSwap: SimpleSwap)
| TriangularSwaps (path: "string list") (swaps: "TriangularSwap list")

record SimulationSuccess =
  sim_type :: string
  initialAmount :: BigNumber
  finalAmount :: BigNumber
  profit :: BigNumber
  profitUSD :: BigNumber
  netProfit :: BigNumber
  isProfitable :: bool
  detail :: SwapDetail
  totalGasUsed :: int
  totalGasCost :: BigNumber
  sim_timestamp :: int

datatype SimulationResult =
  Success SimulationSuccess
| Failure (error: string) (failedType: string) (failedAt: int)

text \<open>
  The cache key is the string \<open>type:opportunityId:tradeAmount\<close>; it is represented by
  the triple it is built from.
\<close>

type_synonym CacheKey = "string \<times> string \<times> BigNumber"

record CacheEntry =
  ce_result :: SimulationResult
  ce_timestamp :: int

record TradeSimulator =
  simulationCache :: "CacheKey \<rightharpoonup> CacheEntry"
  cacheTimeout :: int
  cacheHits :: nat
  cacheRequests :: nat

definition TradeSimulator_new :: TradeSimulator where
  "TradeSimulator_new = \<lparr> simulationCache = Map.empty, cacheTimeout = 30000,
     cacheHits = 0, cacheRequests = 0 \<rparr>"

definition getCacheKey :: "string \<Rightarrow> string \<Rightarrow> BigNumber \<Rightarrow> CacheKey" where
  "getCacheKey type opportunityId tradeAmount = (type, opportunityId, tradeAmount)"

definition getCachedResult :: "TradeSimulator \<Rightarrow> int \<Rightarrow> CacheKey
    \<Rightarrow> SimulationResult option \<times> TradeSimulator" where
  "getCachedResult sim t key =
     (let sim1 = sim\<lparr> cacheRequests := cacheRequests sim + 1 \<rparr> in
      case simulationCache sim key of
        Some cached \<Rightarrow>
          if t - ce_timestamp cached < cacheTimeout sim
          then (Some (ce_result cached), sim1\<lparr> cacheHits := cacheHits sim1 + 1 \<rparr>)
          else (None, sim1)
      | None \<Rightarrow> (None, sim1))"

definition setCachedResult :: "TradeSimulator \<Rightarrow> int \<Rightarrow> CacheKey \<Rightarrow> SimulationResult
    \<Rightarrow> TradeSimulator" where
  "setCachedResult sim t key result =
     sim\<lparr> simulationCache := (simulationCache sim)(key \<mapsto>
       \<lparr> ce_result = result, ce_timestamp = t \<rparr>) \<rparr>"

definition getQuoterAddress :: "SimulatorEnv \<Rightarrow> string \<Rightarrow> string option" where
  "getQuoterAddress env dexName =
     (if dexName \<in> set [''UNISWAP_V3'', ''SUSHISWAP_V3'', ''PANCAKESWAP_V3'', ''QUICKSWAP_V3'']
      then quoterEnv env (dexName @ ''_QUOTER'')
      else None)"

definition simulateSwap :: "SimulatorEnv \<Rightarrow> Pool \<Rightarrow> string \<Rightarrow> string \<Rightarrow> BigNumber \<Rightarrow> string
    \<Rightarrow> SwapResult" where
  "simulateSwap env pool tokenIn tokenOut amountIn description =
     (let failed = (\<lambda>message. \<lparr> sw_success = False, sw_error = Some message,
            sw_inputAmount = amountIn, sw_outputAmount = 0, sw_gasUsed = 0,
            sw_description = description \<rparr>)
      in
        case getQuoterAddress env (pool_dex pool) of
          None \<Rightarrow> failed (''Quoter not available for '' @ pool_dex pool)
        | Some quoterAddress \<Rightarrow>
            if quoterAddress = [] then failed (''Quoter not available for '' @ pool_dex pool)
            else
              (case quoteExactInputSingle env quoterAddress tokenIn tokenOut (pool_feeTier pool)
                      amountIn of
                 Inl message \<Rightarrow> failed message
               | Inr (amountOut, gasEstimate) \<Rightarrow>
                   \<lparr> sw_success = True, sw_error = None, sw_inputAmount = amountIn,
                     sw_outputAmount = amountOut,
                     sw_gasUsed = (case gasEstimate of None \<Rightarrow> 150000 | Some g \<Rightarrow> g),
                     sw_description = description \<rparr>))"

definition errorText :: "SwapResult \<Rightarrow> string" where
  "errorText r = (case sw_error r of None \<Rightarrow> ''undefined'' | Some message \<Rightarrow> message)"

text \<open>
  \<open>estimateGasCost\<close> of the simulator calls the asynchronous \<open>rpcManager.getGasPrice()\<close>
  without awaiting it: \<open>gasPriceData\<close> is a promise, its \<open>gasPrice\<close> property is
  undefined, and the 20 gwei default is used.  The conversion to USD is double
  arithmetic.
\<close>

definition sim_estimateGasCost :: "int \<Rightarrow> BigNumber" where
  "sim_estimateGasCost gasUsed =
     (let gasPrice = 20000000000;
          gasCostWei = gasUsed * gasPrice;
          gasCostETH = of_int gasCostWei / 10 ^ 18;
          ethPriceUSD = 2000
      in gasCostETH * ethPriceUSD)"

text \<open>
  \<open>BigInt(x.toString())\<close> on a BigNumber: with \<open>EXPONENTIAL_AT: 50\<close> the string is plain
  digits, and so accepted, for an integer of magnitude below \<open>10^50\<close>.
\<close>

definition toBigInt :: "BigNumber \<Rightarrow> int option" where
  "toBigInt x = (if x = of_int \<lfloor>x\<rfloor> \<and> \<bar>x\<bar> < 10 ^ 50 then Some \<lfloor>x\<rfloor> else None)"

text \<open>The body of the \<open>try\<close> block after a cache miss; \<open>Inl\<close> is a thrown error.\<close>

definition simpleSimulation :: "SimulatorEnv \<Rightarrow> SimpleTrade \<Rightarrow> BigNumber
    \<Rightarrow> string + SimulationSuccess" where
  "simpleSimulation env opportunity tradeAmount =
     (let tokenA = st_tokenA opportunity; tokenB = st_tokenB opportunity;
          buyDex = st_buyDex opportunity; sellDex = st_sellDex opportunity
      in
      case (SUPPORTED_TOKENS tokenA, SUPPORTED_TOKENS tokenB) of
        (Some tokenAInfo, Some tokenBInfo) \<Rightarrow>
          (let amountIn = parseTokenAmount tradeAmount (ti_decimals tokenAInfo) in
           case (getPool env buyDex tokenA tokenB FEE_TIERS_MEDIUM,
                 getPool env sellDex tokenA tokenB FEE_TIERS_MEDIUM) of
             (Some buyPool, Some sellPool) \<Rightarrow>
               (let buyResult = simulateSwap env buyPool (ti_address tokenAInfo)
                      (ti_address tokenBInfo) amountIn ''buy''
                in
                  if \<not> sw_success buyResult
                  then Inl (''Buy simulation failed: '' @ errorText buyResult)
                  else
                    let sellResult = simulateSwap env sellPool (ti_address tokenBInfo)
                          (ti_address tokenAInfo) (of_int (sw_outputAmount buyResult)) ''sell''
                    in
                      if \<not> sw_success sellResult
                      then Inl (''Sell simulation failed: '' @ errorText sellResult)
                      else
                        let final = of_int (sw_outputAmount sellResult);
                            initial = amountIn;
                            gain = final - initial;
                            gainUSD = formatTokenAmount gain (ti_decimals tokenAInfo);
                            buyGasCost = sim_estimateGasCost (sw_gasUsed buyResult);
                            sellGasCost = sim_estimateGasCost (sw_gasUsed sellResult);
                            gasTotal = buyGasCost + sellGasCost;
                            net = gainUSD - gasTotal
                        in Inr \<lparr>
                             sim_type = ''simple'',
                             initialAmount = initial,
                             finalAmount = final,
                             profit = gain,
                             profitUSD = gainUSD,
                             netProfit = net,
                             isProfitable = (net > 0),
                             detail = SimpleSwaps
                               \<lparr> ssw_dex = buyDex, ssw_inputAmount = amountIn,
                                 ssw_outputAmount = sw_outputAmount buyResult,
                                 ssw_gasUsed = sw_gasUsed buyResult,
                                 ssw_gasCost = buyGasCost,
                                 ssw_success = sw_success buyResult \<rparr>
                               \<lparr> ssw_dex = sellDex,
                                 ssw_inputAmount = of_int (sw_outputAmount buyResult),
                                 ssw_outputAmount = sw_outputAmount sellResult,
                                 ssw_gasUsed = sw_gasUsed sellResult,
                                 ssw_gasCost = sellGasCost,
                                 ssw_success = sw_success sellResult \<rparr>,
                             totalGasUsed = sw_gasUsed buyResult + sw_gasUsed sellResult,
                             totalGasCost = gasTotal,
                             sim_timestamp = t_result env \<rparr>)
           | _ \<Rightarrow> Inl ''Pool information not available'')
      | _ \<Rightarrow> Inl (''Token information not found for '' @ tokenA @ '' or '' @ tokenB))"

text \<open>
  A thrown error becomes the uncached failure object of the \<open>catch\<close> block; a result
  is stored and returned.
\<close>

definition finishSimulation :: "TradeSimulator \<Rightarrow> SimulatorEnv \<Rightarrow> CacheKey \<Rightarrow> string
    \<Rightarrow> string + SimulationSuccess \<Rightarrow> SimulationResult \<times> TradeSimulator" where
  "finishSimulation sim env key type outcome =
     (case outcome of
        Inl message \<Rightarrow> (Failure message type (t_result env), sim)
      | Inr result \<Rightarrow> (Success result, setCachedResult sim (t_store env) key (Success result)))"

definition simulateSimpleArbitrage :: "TradeSimulator \<Rightarrow> SimulatorEnv \<Rightarrow> SimpleTrade \<Rightarrow> BigNumber
    \<Rightarrow> SimulationResult \<times> TradeSimulator" where
  "simulateSimpleArbitrage sim env opportunity tradeAmount =
     (let cacheKey = getCacheKey ''simple'' (st_id opportunity) tradeAmount in
      case getCachedResult sim (t_lookup env) cacheKey of
        (Some cached, sim1) \<Rightarrow> (cached, sim1)
      | (None, sim1) \<Rightarrow>
          finishSimulation sim1 env cacheKey ''simple''
            (simpleSimulation env opportunity tradeAmount))"

text \<open>
  The loop over the legs of a triangular trade: the leg number, the running amount,
  the swaps recorded so far and the gas totals.
\<close>

fun simulateLegs :: "SimulatorEnv \<Rightarrow> Trade list \<Rightarrow> nat \<Rightarrow> BigNumber \<Rightarrow> TriangularSwap list
    \<Rightarrow> int \<Rightarrow> BigNumber \<Rightarrow> string + (BigNumber \<times> TriangularSwap list \<times> int \<times> BigNumber)" where
  "simulateLegs env [] i currentAmount swapResults gasUsed gasCost =
     Inr (currentAmount, swapResults, gasUsed, gasCost)"
| "simulateLegs env (trade # rest) i currentAmount swapResults gasUsed gasCost =
     (case getPool env (tr_dex trade) (tr_token trade) (tr_toToken trade) FEE_TIERS_MEDIUM of
        None \<Rightarrow> Inl (''Pool not found for '' @ tr_token trade @ ''/'' @ tr_toToken trade
                 @ '' on '' @ tr_dex trade)
      | Some pool \<Rightarrow>
          (case (SUPPORTED_TOKENS (tr_token trade), SUPPORTED_TOKENS (tr_toToken trade),
                 toBigInt currentAmount) of
             (Some fromTokenInfo, Some toTokenInfo, Some amount) \<Rightarrow>
               (let swapResult = simulateSwap env pool (ti_address fromTokenInfo)
                      (ti_address toTokenInfo) (of_int amount)
                      (''leg_'' @ string_of_nat (i + 1))
                in
                  if \<not> sw_success swapResult
                  then Inl (''Swap simulation failed for leg '' @ string_of_nat (i + 1)
                         @ '': '' @ errorText swapResult)
                  else
                    simulateLegs env rest (i + 1) (of_int (sw_outputAmount swapResult))
                      (swapResults @
                         [\<lparr> tsw_leg = i + 1, tsw_dex = tr_dex trade,
                            tsw_fromToken = tr_token trade, tsw_toToken = tr_toToken trade,
                            tsw_inputAmount = currentAmount,
                            tsw_outputAmount = sw_outputAmount swapResult,
                            tsw_gasUsed = sw_gasUsed swapResult,
                            tsw_gasCost = sim_estimateGasCost (sw_gasUsed swapResult),
                            tsw_success = True \<rparr>])
                      (gasUsed + sw_gasUsed swapResult)
                      (gasCost + sim_estimateGasCost (sw_gasUsed swapResult)))
           | (None, _, _) \<Rightarrow> Inl ''TypeError''
           | (_, None, _) \<Rightarrow> Inl ''TypeError''
           | (_, _, None) \<Rightarrow> Inl ''SyntaxError''))"

definition triangularSimulation :: "SimulatorEnv \<Rightarrow> TriangularTrade \<Rightarrow> BigNumber
    \<Rightarrow> string + SimulationSuccess" where
  "triangularSimulation env opportunity tradeAmount =
     (case tt_path opportunity of
        [] \<Rightarrow> Inl ''TypeError''
      | origin # _ \<Rightarrow>
          (case SUPPORTED_TOKENS origin of
             None \<Rightarrow> Inl ''TypeError''
           | Some originInfo \<Rightarrow>
               (case simulateLegs env (tt_trades opportunity) 0
                       (parseTokenAmount tradeAmount (ti_decimals originInfo)) [] 0 0 of
                  Inl message \<Rightarrow> Inl message
                | Inr (currentAmount, swapResults, gasUsed, gasCost) \<Rightarrow>
                    let final = currentAmount;
                        initial = parseTokenAmount tradeAmount (ti_decimals originInfo);
                        gain = final - initial;
                        gainUSD = formatTokenAmount gain (ti_decimals originInfo);
                        net = gainUSD - gasCost
                    in Inr \<lparr>
                         sim_type = ''triangular'',
                         initialAmount = initial,
                         finalAmount = final,
                         profit = gain,
                         profitUSD = gainUSD,
                         netProfit = net,
                         isProfitable = (net > 0),
                         detail = TriangularSwaps (tt_path opportunity) swapResults,
                         totalGasUsed = gasUsed,
                         totalGasCost = gasCost,
                         sim_timestamp = t_result env \<rparr>)))"

definition simulateTriangularArbitrage :: "TradeSimulator \<Rightarrow> SimulatorEnv \<Rightarrow> TriangularTrade
    \<Rightarrow> BigNumber \<Rightarrow> SimulationResult \<times> TradeSimulator" where
  "simulateTriangularArbitrage sim env opportunity tradeAmount =
     (let cacheKey = getCacheKey ''triangular'' (tt_id opportunity) tradeAmount in
      case getCachedResult sim (t_lookup env) cacheKey of
        (Some cached, sim1) \<Rightarrow> (cached, sim1)
      | (None, sim1) \<Rightarrow>
          finishSimulation sim1 env cacheKey ''triangular''
            (triangularSimulation env opportunity tradeAmount))"

text \<open>
  \<open>simulate\<close> is the dispatch on \<open>opportunity.type\<close> that \<open>simulateWithSlippage\<close> and
  \<open>batchSimulate\<close> perform.
\<close>

definition simulate :: "TradeSimulator \<Rightarrow> SimulatorEnv \<Rightarrow> Opportunity \<Rightarrow> BigNumber
    \<Rightarrow> SimulationResult \<times> TradeSimulator" where
  "simulate sim env opportunity tradeAmount =
     (case opportunity of
        Simple s \<Rightarrow> simulateSimpleArbitrage sim env s tradeAmount
      | Triangular t \<Rightarrow> simulateTriangularArbitrage sim env t tradeAmount)"






section \<open>Writing a V2 observation into the price cache\<close>

text \<open>
  What \<open>updatePriceV2\<close> obtains from outside: the price computed by the V2 discovery
  service (\<open>None\<close> for \<open>null\<close> or a failed call), the block number (\<open>None\<close> when the
  call rejects) and the clock.
\<close>

record V2Env =
  v2_price :: "number option"
  v2_blockNumber :: "int option"
  v2_now :: int

definition pushHistory :: "PriceData list option \<Rightarrow> PriceData \<Rightarrow> PriceData list" where
  "pushHistory history priceData =
     (let h = (case history of None \<Rightarrow> [] | Some entries \<Rightarrow> entries) @ [priceData]
      in if length h > 100 then tl h else h)"

definition updatePriceV2 :: "PriceFetcher \<Rightarrow> V2Env \<Rightarrow> string \<Rightarrow> string \<Rightarrow> string
    \<Rightarrow> PriceData option \<times> PriceFetcher" where
  "updatePriceV2 pf env dexName tokenA tokenB =
     (case v2_price env of
        None \<Rightarrow> (None, pf)
      | Some p \<Rightarrow>
          if p = 0 then (None, pf)
          else
            (case v2_blockNumber env of
               None \<Rightarrow> (None, pf)
             | Some block \<Rightarrow>
                 let priceData = \<lparr> pd_dex = dexName, pd_tokenA = tokenA, pd_tokenB = tokenB,
                       pd_feeTier = 3000, pd_price = p, pd_liquidity = ''1000000000'',
                       pd_blockNumber = block, pd_timestamp = v2_now env \<rparr>;
                     priceKey = getPriceKey dexName tokenA tokenB 3000
                 in (Some priceData,
                     pf\<lparr> prices := mapSet (prices pf) priceKey priceData,
                         priceHistory := (priceHistory pf)(priceKey \<mapsto>
                           pushHistory (priceHistory pf priceKey) priceData) \<rparr>)))"

text \<open>
  The V2 branch of \<open>updateAllPrices\<close>: for a pair with a V2 pool it calls
  \<open>this.updatePriceV2('SUSHISWAP_V2', tokenA, tokenB)\<close>.
\<close>

definition updateAllPrices_V2 :: "PriceFetcher \<Rightarrow> V2Env \<Rightarrow> string \<Rightarrow> string
    \<Rightarrow> PriceData option \<times> PriceFetcher" where
  "updateAllPrices_V2 pf env tokenA tokenB = updatePriceV2 pf env ''SUSHISWAP_V2'' tokenA tokenB"

text \<open>The cache key under which \<open>simulate\<close> looks an opportunity up.\<close>

definition opportunityKey :: "Opportunity \<Rightarrow> BigNumber \<Rightarrow> CacheKey" where
  "opportunityKey opportunity tradeAmount =
     (case opportunity of
        Simple s \<Rightarrow> getCacheKey ''simple'' (st_id s) tradeAmount
      | Triangular t \<Rightarrow> getCacheKey ''triangular'' (tt_id t) tradeAmount)"

section \<open>Sample data\<close>

text \<open>
  A cache with one observation per queried venue for WETH/USDT, a cache for the cycle
  USDC, WETH, WBTC, and an environment with a 20 gwei gas price and the default
  threshold of 50.
\<close>

definition sample_observation :: "string \<Rightarrow> string \<Rightarrow> string \<Rightarrow> BigNumber \<Rightarrow> PriceData" where
  "sample_observation d a b p = \<lparr> pd_dex = d, pd_tokenA = a, pd_tokenB = b,
     pd_feeTier = 3000, pd_price = p, pd_liquidity = ''1'', pd_blockNumber = 1,
     pd_timestamp = 0 \<rparr>"

definition sample_cache :: "BigNumber \<Rightarrow> BigNumber \<Rightarrow> PriceFetcher" where
  "sample_cache p q = \<lparr> prices =
       [(''UNISWAP_V3:WETH-USDT:3000'',
          sample_observation ''UNISWAP_V3'' ''WETH'' ''USDT'' p),
        (''SUSHISWAP_V3:WETH-USDT:3000'',
          sample_observation ''SUSHISWAP_V3'' ''WETH'' ''USDT'' q)],
     priceHistory = Map.empty \<rparr>"

text \<open>
  A cache with two fee tiers of one venue and one tier of the other, in the order in
  which \<open>updateAllPrices\<close> polls them.
\<close>

definition sample_tier_cache :: "BigNumber \<Rightarrow> BigNumber \<Rightarrow> BigNumber \<Rightarrow> PriceFetcher" where
  "sample_tier_cache p q r = \<lparr> prices =
       [(''UNISWAP_V3:WETH-USDT:500'',
          (sample_observation ''UNISWAP_V3'' ''WETH'' ''USDT'' p)\<lparr> pd_feeTier := 500 \<rparr>),
        (''UNISWAP_V3:WETH-USDT:3000'',
          sample_observation ''UNISWAP_V3'' ''WETH'' ''USDT'' q),
        (''SUSHISWAP_V3:WETH-USDT:3000'',
          sample_observation ''SUSHISWAP_V3'' ''WETH'' ''USDT'' r)],
     priceHistory = Map.empty \<rparr>"

definition sample_cycle_cache :: "BigNumber \<Rightarrow> BigNumber \<Rightarrow> BigNumber \<Rightarrow> PriceFetcher" where
  "sample_cycle_cache p1 p2 p3 = \<lparr> prices =
       [(''UNISWAP_V3:USDC-WETH:3000'',
          sample_observation ''UNISWAP_V3'' ''USDC'' ''WETH'' p1),
        (''UNISWAP_V3:WETH-WBTC:3000'',
          sample_observation ''UNISWAP_V3'' ''WETH'' ''WBTC'' p2),
        (''UNISWAP_V3:WBTC-USDC:3000'',
          sample_observation ''UNISWAP_V3'' ''WBTC'' ''USDC'' p3)],
     priceHistory = Map.empty \<rparr>"

definition sample_env :: DetectorEnv where
  "sample_env = \<lparr> feeData = Some (Some 20000000000), MIN_PROFIT_THRESHOLD_USD = 50,
     generateId = ''k3j9x2m1q'', now = 1700000000000 \<rparr>"

definition sample_candidate :: SimpleOpportunity where
  "sample_candidate = \<lparr>
     so_id = ''k3j9x2m1q'', so_type = ''simple'', so_tokenA = ''WETH'', so_tokenB = ''USDT'',
     buyDex = ''UNISWAP_V3'', sellDex = ''SUSHISWAP_V3'', buyPrice = 100, sellPrice = 110,
     priceDifference = 10, priceDifferencePercent = 10, so_tradeAmount = 1000,
     so_expectedOutput = 1100, so_expectedProfit = 46997 / 500, so_swapFees = 6,
     so_gasCost = 3 / 500, so_totalFees = 3003 / 500,
     poolA = ''pool_UNISWAP_V3_WETH_USDT'', poolB = ''pool_SUSHISWAP_V3_WETH_USDT'',
     so_timestamp = 1700000000000, so_status = ''detected'',
     so_metadata = \<lparr> chainId = 1, md_feeTier = 3000, slippageTolerance = 1 / 2,
       priceImpact = 2 \<rparr> \<rparr>"

definition sample_profit_env :: ProfitEnv where
  "sample_profit_env = \<lparr> gasPriceCache = Some 20000000000, GAS_BUFFER_PERCENTAGE = 20,
     pe_MIN_PROFIT_THRESHOLD_USD = 50, pe_now = 1700000000000 \<rparr>"

text \<open>
  A simulator environment: with \<open>live\<close> every pool exists and the quoter answers with
  the input amount plus 1000 base units and a gas estimate of 120000; without it no
  pool is known.  The clock reads \<open>t\<close>, \<open>t + 1\<close> and \<open>t + 2\<close>.
\<close>

definition sample_sim_env :: "bool \<Rightarrow> int \<Rightarrow> SimulatorEnv" where
  "sample_sim_env live t = \<lparr>
     getPool = (\<lambda>dex a b fee. if live
       then Some \<lparr> pool_dex = dex, pool_feeTier = fee, pool_address = ''0x11b8'' \<rparr> else None),
     quoterEnv = [''UNISWAP_V3_QUOTER'' \<mapsto> ''0xb27308f9F90D607463bb33eA1BeBb41C27CE5AB6'',
       ''SUSHISWAP_V3_QUOTER'' \<mapsto> ''0x64e8802FE490fa7cc61d3463958199161Bb608A7''],
     quoteExactInputSingle = (\<lambda>quoter tokenIn tokenOut fee amountIn.
       Inr (\<lfloor>amountIn\<rfloor> + 1000, Some 120000)),
     t_lookup = t, t_result = t + 1, t_store = t + 2 \<rparr>"

definition sample_trade :: SimpleTrade where
  "sample_trade = \<lparr> st_id = ''k3j9x2m1q'', st_tokenA = ''USDC'', st_tokenB = ''USDT'',
     st_buyDex = ''UNISWAP_V3'', st_sellDex = ''SUSHISWAP_V3'' \<rparr>"

definition sample_v2_env :: V2Env where
  "sample_v2_env = \<lparr> v2_price = Some 105, v2_blockNumber = Some 18000000,
     v2_now = 1700000000000 \<rparr>"

definition sample_result :: "int \<Rightarrow> SimulationSuccess" where
  "sample_result t = \<lparr>
     sim_type = ''simple'', initialAmount = 1000000000, finalAmount = 1000002000,
     profit = 2000, profitUSD = 1 / 500, netProfit = - (4799 / 500), isProfitable = False,
     detail = SimpleSwaps
       \<lparr> ssw_dex = ''UNISWAP_V3'', ssw_inputAmount = 1000000000,
         ssw_outputAmount = 1000001000, ssw_gasUsed = 120000, ssw_gasCost = 24 / 5,
         ssw_success = True \<rparr>
       \<lparr> ssw_dex = ''SUSHISWAP_V3'', ssw_inputAmount = 1000001000,
         ssw_outputAmount = 1000002000, ssw_gasUsed = 120000, ssw_gasCost = 24 / 5,
         ssw_success = True \<rparr>,
     totalGasUsed = 240000, totalGasCost = 48 / 5, sim_timestamp = t \<rparr>"


definition sample_simulator :: TradeSimulator where
  "sample_simulator = \<lparr>
     simulationCache = [(''simple'', ''k3j9x2m1q'', 1000) \<mapsto>
       \<lparr> ce_result = Success (sample_result 1001), ce_timestamp = 1002 \<rparr>],
     cacheTimeout = 30000, cacheHits = 0, cacheRequests = 1 \<rparr>"

section \<open>Evaluation lemmas\<close>

lemma floor_rat_numeral_divide [simp]:
  "\<lfloor>numeral a / numeral b :: rat\<rfloor> = numeral a div numeral b"
  by (metis floor_divide_of_int_eq of_int_numeral)

lemma string_of_nat_tiers:
  "string_of_nat 500 = ''500''" "string_of_nat 3000 = ''3000''" "string_of_nat 10000 = ''10000''"
  by (simp_all add: string_of_nat.simps digit_def)

lemmas bignumber_defs = dividedBy_def round_down_def DECIMAL_PLACES_def fromWei_def
  formatTokenAmount_def parseTokenAmount_def

lemmas detector_defs = Let_def calculateSwapFees_def estimateGasCost_def gasPriceOrDefault_def
  meetsProfitThreshold_def poolAddress_def sample_observation_def sample_env_def

lemma getAllPrices_sample:
  "getAllPrices (sample_cache p q) ''WETH'' ''USDT'' =
     [(''UNISWAP_V3'', sample_observation ''UNISWAP_V3'' ''WETH'' ''USDT'' p),
      (''SUSHISWAP_V3'', sample_observation ''SUSHISWAP_V3'' ''WETH'' ''USDT'' q)]"
  by (simp add: getAllPrices_def queriedDexes_def getPrice_def getPriceKey_def
      string_of_nat_tiers sample_cache_def)

lemma detect_sample:
  "detectSimpleArbitrage sample_env (sample_cache 100 110) ''WETH'' ''USDT'' = Some sample_candidate"
  by (simp add: detectSimpleArbitrage_def getAllPrices_sample detector_defs bignumber_defs
      sample_candidate_def)

lemma getAllPrices_shape:
  "getAllPrices pf a b = [] \<or> (\<exists>x. getAllPrices pf a b = [(''UNISWAP_V3'', x)])
   \<or> (\<exists>y. getAllPrices pf a b = [(''SUSHISWAP_V3'', y)])
   \<or> (\<exists>x y. getAllPrices pf a b = [(''UNISWAP_V3'', x), (''SUSHISWAP_V3'', y)])"
  by (simp add: getAllPrices_def queriedDexes_def split: option.splits)

lemma poolAddress_inject: "poolAddress d a b = poolAddress d' a b \<longleftrightarrow> d = d'"
  by (simp add: poolAddress_def)

lemma detect_two_venues:
  assumes "detectSimpleArbitrage env pf a b = Some c"
  shows "\<exists>x y. getAllPrices pf a b = [(''UNISWAP_V3'', x), (''SUSHISWAP_V3'', y)]"
  using assms getAllPrices_shape [of pf a b]
  by (auto simp: detectSimpleArbitrage_def Let_def split: if_splits)

lemma bestBuySellLoop_bounds:
  "bestBuySellLoop ps (B, S) = (B', S') \<Longrightarrow>
     (\<forall>b. B = Some b \<longrightarrow> (\<exists>b'. B' = Some b' \<and> pd_price b' \<le> pd_price b))
   \<and> (\<forall>s. S = Some s \<longrightarrow> (\<exists>s'. S' = Some s' \<and> pd_price s \<le> pd_price s'))
   \<and> (\<forall>(d, p) \<in> set ps. pd_price p \<noteq> 0 \<longrightarrow>
         (\<exists>b' s'. B' = Some b' \<and> S' = Some s' \<and> pd_price b' \<le> pd_price p
            \<and> pd_price p \<le> pd_price s'))"
proof (induction ps arbitrary: B S)
  case Nil
  then show ?case by simp
next
  case (Cons x ps)
  obtain d p where x: "x = (d, p)" by (cases x)
  show ?case
  proof (cases "pd_price p = 0")
    case True
    with Cons.prems x have "bestBuySellLoop ps (B, S) = (B', S')" by simp
    from Cons.IH [OF this] True x show ?thesis by auto
  next
    case False
    let ?B = "case B of None \<Rightarrow> Some p
      | Some b \<Rightarrow> if pd_price p < pd_price b then Some p else Some b"
    let ?S = "case S of None \<Rightarrow> Some p
      | Some s \<Rightarrow> if pd_price p > pd_price s then Some p else Some s"
    from Cons.prems x False have "bestBuySellLoop ps (?B, ?S) = (B', S')" by simp
    from Cons.IH [OF this] x show ?thesis
      by (cases B; cases S) (fastforce split: if_splits)+
  qed
qed

section \<open>The simple-arbitrage scan\<close>

text \<open>
  C1.  A candidate returned by \<open>detectSimpleArbitrage\<close> has a spread percent, computed as
  \<open>(sell - buy) / buy * 100\<close>, that is not below 0.5, swap fees of 0.6% of the trade
  amount, an expected profit equal to gross profit minus swap fees minus gas cost, and
  that profit meets \<open>MIN_PROFIT_THRESHOLD_USD\<close>.  Conversely, when the selected best buy
  and best sell observations give a spread below 0.5, or a net profit below the
  threshold, the function returns \<open>null\<close>.
\<close>

theorem simple_scan_gates:
  "(\<forall>c. detectSimpleArbitrage env pf tokenA tokenB = Some c \<longrightarrow>
      priceDifferencePercent c = dividedBy (sellPrice c - buyPrice c) (buyPrice c) * 100
    \<and> \<not> priceDifferencePercent c < 1 / 2
    \<and> so_swapFees c = so_tradeAmount c * (6 / 1000)
    \<and> so_expectedProfit c =
        so_tradeAmount c * dividedBy (priceDifferencePercent c) 100 - so_swapFees c - so_gasCost c
    \<and> MIN_PROFIT_THRESHOLD_USD env \<le> so_expectedProfit c)
   \<and> (\<forall>bestBuy bestSell.
        bestBuySellLoop (getAllPrices pf tokenA tokenB) (None, None) = (Some bestBuy, Some bestSell)
        \<and> (dividedBy (pd_price bestSell - pd_price bestBuy) (pd_price bestBuy) * 100 < 1 / 2
           \<or> 1000 * dividedBy
                 (dividedBy (pd_price bestSell - pd_price bestBuy) (pd_price bestBuy) * 100) 100
               - calculateSwapFees 1000 (pd_dex bestBuy) (pd_dex bestSell)
               - estimateGasCost env (pd_dex bestBuy) (pd_dex bestSell)
             < MIN_PROFIT_THRESHOLD_USD env)
        \<longrightarrow> detectSimpleArbitrage env pf tokenA tokenB = None)"
  by (auto simp: detectSimpleArbitrage_def Let_def meetsProfitThreshold_def calculateSwapFees_def
      split: if_splits option.splits prod.splits)

text \<open>
  Prices 100 and 110 give a spread of 10% and a net profit of 93.994, and a candidate;
  prices 2645 and 2660 give a spread of 0.567% and a net profit below the threshold,
  and no candidate.
\<close>

theorem simple_scan_gates_witness:
  "detectSimpleArbitrage sample_env (sample_cache 100 110) ''WETH'' ''USDT'' = Some sample_candidate
   \<and> \<not> priceDifferencePercent sample_candidate < 1 / 2
   \<and> so_expectedProfit sample_candidate =
       so_tradeAmount sample_candidate * dividedBy (priceDifferencePercent sample_candidate) 100
         - so_swapFees sample_candidate - so_gasCost sample_candidate
   \<and> MIN_PROFIT_THRESHOLD_USD sample_env \<le> so_expectedProfit sample_candidate
   \<and> detectSimpleArbitrage sample_env (sample_cache 2645 2660) ''WETH'' ''USDT'' = None"
proof -
  have emitted: "\<not> priceDifferencePercent sample_candidate < 1 / 2
      \<and> so_expectedProfit sample_candidate =
          so_tradeAmount sample_candidate * dividedBy (priceDifferencePercent sample_candidate) 100
            - so_swapFees sample_candidate - so_gasCost sample_candidate
      \<and> MIN_PROFIT_THRESHOLD_USD sample_env \<le> so_expectedProfit sample_candidate"
    using simple_scan_gates [of sample_env "sample_cache 100 110" "''WETH''" "''USDT''"]
      detect_sample by blast
  have selected: "bestBuySellLoop (getAllPrices (sample_cache 2645 2660) ''WETH'' ''USDT'')
      (None, None) =
      (Some (sample_observation ''UNISWAP_V3'' ''WETH'' ''USDT'' 2645),
       Some (sample_observation ''SUSHISWAP_V3'' ''WETH'' ''USDT'' 2660))"
    by (simp add: getAllPrices_sample sample_observation_def)
  have low: "1000 * dividedBy (dividedBy (2660 - 2645) 2645 * 100) 100
      - calculateSwapFees 1000 ''UNISWAP_V3'' ''SUSHISWAP_V3''
      - estimateGasCost sample_env ''UNISWAP_V3'' ''SUSHISWAP_V3''
      < MIN_PROFIT_THRESHOLD_USD sample_env"
    by (simp add: detector_defs bignumber_defs)
  have rejected: "detectSimpleArbitrage sample_env (sample_cache 2645 2660) ''WETH'' ''USDT'' = None"
    using simple_scan_gates [of sample_env "sample_cache 2645 2660" "''WETH''" "''USDT''"]
      selected low by (simp add: sample_observation_def)
  from emitted rejected detect_sample show ?thesis by simp
qed

text \<open>
  The scan over all pools applies the same two gates.  A candidate with a finite spread
  satisfies them as above; when the normalised buy price is zero the spread and the
  profit are \<open>Infinity\<close>, which passes both comparisons.
\<close>

lemma pool_scan_gates:
  assumes "detectSimpleArbitrage_pools env pf tokenA tokenB = Some c"
  shows "(case po_priceDifferencePercent c of
      PosInfinity \<Rightarrow>
        po_buyPrice c = 0 \<and> 0 < po_sellPrice c \<and> po_expectedProfit c = PosInfinity
    | Finite percent \<Rightarrow>
        percent = dividedBy (po_sellPrice c - po_buyPrice c) (po_buyPrice c) * 100
      \<and> \<not> percent < 1 / 2
      \<and> po_swapFees c = po_tradeAmount c * (6 / 1000)
      \<and> po_expectedProfit c = Finite
          (po_tradeAmount c * dividedBy percent 100 - po_swapFees c - po_gasCost c)
      \<and> MIN_PROFIT_THRESHOLD_USD env
          \<le> po_tradeAmount c * dividedBy percent 100 - po_swapFees c - po_gasCost c)"
  using assms
  by (auto simp: detectSimpleArbitrage_pools_def Let_def meetsProfitThreshold_def
      calculateSwapFees_def split: if_splits option.splits prod.splits)

lemma getAllPrices_tiers:
  "getAllPrices (sample_tier_cache p q r) ''WETH'' ''USDT'' =
     [(''UNISWAP_V3'', (sample_observation ''UNISWAP_V3'' ''WETH'' ''USDT'' p)\<lparr> pd_feeTier := 500 \<rparr>),
      (''SUSHISWAP_V3'', sample_observation ''SUSHISWAP_V3'' ''WETH'' ''USDT'' r)]"
  by (simp add: getAllPrices_def queriedDexes_def getPrice_def getPriceKey_def
      string_of_nat_tiers sample_tier_cache_def)

lemma relevantPrices_tiers:
  "relevantPrices (sample_tier_cache p q r) ''WETH'' ''USDT'' =
     [(sample_observation ''UNISWAP_V3'' ''WETH'' ''USDT'' p)\<lparr> pd_feeTier := 500 \<rparr>,
      sample_observation ''UNISWAP_V3'' ''WETH'' ''USDT'' q,
      sample_observation ''SUSHISWAP_V3'' ''WETH'' ''USDT'' r]"
  by (simp add: relevantPrices_def getAllPricesMap_def sample_tier_cache_def
      sample_observation_def)

lemma bestPoolLoop_bounds:
  "bestPoolLoop a ps (B, S) = (B', S') \<Longrightarrow>
     (\<forall>b. B = Some b \<longrightarrow> (\<exists>b'. B' = Some b' \<and> pd_price (fst b') \<le> pd_price (fst b)))
   \<and> (\<forall>s. S = Some s \<longrightarrow> (\<exists>s'. S' = Some s' \<and> pd_price (fst s) \<le> pd_price (fst s')))
   \<and> (\<forall>p \<in> set ps. pd_price p \<noteq> 0 \<longrightarrow>
         (\<exists>b' s'. B' = Some b' \<and> S' = Some s'
            \<and> pd_price (fst b') \<le> pd_price (fst (normalized a p))
            \<and> pd_price (fst (normalized a p)) \<le> pd_price (fst s')))"
proof (induction ps arbitrary: B S)
  case Nil
  then show ?case by simp
next
  case (Cons p ps)
  show ?case
  proof (cases "pd_price p = 0")
    case True
    with Cons.prems have "bestPoolLoop a ps (B, S) = (B', S')" by simp
    from Cons.IH [OF this] True show ?thesis by auto
  next
    case False
    obtain nd nid where n: "normalized a p = (nd, nid)" by (cases "normalized a p")
    let ?B = "case B of None \<Rightarrow> Some (nd, nid)
      | Some b \<Rightarrow> if pd_price nd < pd_price (fst b) then Some (nd, nid) else Some b"
    let ?S = "case S of None \<Rightarrow> Some (nd, nid)
      | Some s \<Rightarrow> if pd_price nd > pd_price (fst s) then Some (nd, nid) else Some s"
    from Cons.prems False have "bestPoolLoop a ps
        (case B of None \<Rightarrow> Some (normalized a p)
         | Some b \<Rightarrow> if pd_price (fst (normalized a p)) < pd_price (fst b)
             then Some (normalized a p) else Some b,
         case S of None \<Rightarrow> Some (normalized a p)
         | Some s \<Rightarrow> if pd_price (fst (normalized a p)) > pd_price (fst s)
             then Some (normalized a p) else Some s) = (B', S')"
      by simp
    then have "bestPoolLoop a ps (?B, ?S) = (B', S')" unfolding n fst_conv .
    from Cons.IH [OF this] n show ?thesis
      by (cases B; cases S) (fastforce split: if_splits)+
  qed
qed

lemma bestPoolLoop_member:
  "bestPoolLoop a ps (B, S) = (B', S') \<Longrightarrow>
     (B' = B \<or> (\<exists>p \<in> set ps. pd_price p \<noteq> 0 \<and> B' = Some (normalized a p)))
   \<and> (S' = S \<or> (\<exists>p \<in> set ps. pd_price p \<noteq> 0 \<and> S' = Some (normalized a p)))"
proof (induction ps arbitrary: B S)
  case Nil
  then show ?case by simp
next
  case (Cons p ps)
  show ?case
  proof (cases "pd_price p = 0")
    case True
    with Cons.prems have "bestPoolLoop a ps (B, S) = (B', S')" by simp
    from Cons.IH [OF this] show ?thesis by auto
  next
    case False
    obtain nd nid where n: "normalized a p = (nd, nid)" by (cases "normalized a p")
    let ?B = "case B of None \<Rightarrow> Some (nd, nid)
      | Some b \<Rightarrow> if pd_price nd < pd_price (fst b) then Some (nd, nid) else Some b"
    let ?S = "case S of None \<Rightarrow> Some (nd, nid)
      | Some s \<Rightarrow> if pd_price nd > pd_price (fst s) then Some (nd, nid) else Some s"
    from Cons.prems False have "bestPoolLoop a ps
        (case B of None \<Rightarrow> Some (normalized a p)
         | Some b \<Rightarrow> if pd_price (fst (normalized a p)) < pd_price (fst b)
             then Some (normalized a p) else Some b,
         case S of None \<Rightarrow> Some (normalized a p)
         | Some s \<Rightarrow> if pd_price (fst (normalized a p)) > pd_price (fst s)
             then Some (normalized a p) else Some s) = (B', S')"
      by simp
    then have "bestPoolLoop a ps (?B, ?S) = (B', S')" unfolding n fst_conv .
    from Cons.IH [OF this] n False show ?thesis
      by (cases B; cases S) (auto split: if_splits)
  qed
qed

lemma detect_pools_selected:
  assumes "detectSimpleArbitrage_pools env pf a b = Some c"
  shows "\<exists>bestBuy bestSell.
      bestPoolLoop a (relevantPrices pf a b) (None, None)
        = (Some (bestBuy, po_buyPool c), Some (bestSell, po_sellPool c))
    \<and> po_buyPool c \<noteq> po_sellPool c
    \<and> pd_price bestBuy = po_buyPrice c \<and> pd_price bestSell = po_sellPrice c"
  using assms
  by (auto simp: detectSimpleArbitrage_pools_def Let_def
      split: if_splits option.splits prod.splits)

lemma detect_pools_tiers:
  "map_option po_buyDex (detectSimpleArbitrage_pools sample_env (sample_tier_cache 100 110 0)
      ''WETH'' ''USDT'') = Some ''UNISWAP''"
  "map_option po_sellDex (detectSimpleArbitrage_pools sample_env (sample_tier_cache 100 110 0)
      ''WETH'' ''USDT'') = Some ''UNISWAP''"
  "map_option po_buyPool (detectSimpleArbitrage_pools sample_env (sample_tier_cache 100 110 0)
      ''WETH'' ''USDT'') = Some ''UNISWAP_V3_WETH_USDT_500''"
  "map_option po_sellPool (detectSimpleArbitrage_pools sample_env (sample_tier_cache 100 110 0)
      ''WETH'' ''USDT'') = Some ''UNISWAP_V3_WETH_USDT_3000''"
  "map_option (pi_address \<circ> po_poolA) (detectSimpleArbitrage_pools sample_env
      (sample_tier_cache 100 110 0) ''WETH'' ''USDT'') = Some ''pool_UNISWAP_V3_WETH_USDT''"
  "map_option (pi_address \<circ> po_poolB) (detectSimpleArbitrage_pools sample_env
      (sample_tier_cache 100 110 0) ''WETH'' ''USDT'') = Some ''pool_UNISWAP_V3_WETH_USDT''"
  by (simp_all add: detectSimpleArbitrage_pools_def relevantPrices_tiers normalized_def
      poolId_def string_of_nat_tiers detector_defs bignumber_defs firstSegment_def poolInfo_def)





text \<open>
  C2, as stated, fails in both versions of the scan.  In \<open>arbitrage-detector/index.js\<close>
  \<open>getAllPrices\<close> offers one observation per venue, the first fee tier found: with
  UNISWAP_V3 cached at 100 (tier 500) and at 80 (tier 3000) and SUSHISWAP_V3 at 110, the
  candidate buys at 100 although an observation at 80 is cached.  In the version that
  scans all pools, two fee tiers of UNISWAP_V3 at 100 and 110 give a candidate whose
  \<open>buyDex\<close> and \<open>sellDex\<close> are both \<open>UNISWAP\<close> and whose two pool addresses are the same
  string.
\<close>

theorem simple_scan_selection_counterexample:
  "map_option buyPrice
     (detectSimpleArbitrage sample_env (sample_tier_cache 100 80 110) ''WETH'' ''USDT'') = Some 100
   \<and> map_option pd_price
       (map_of (prices (sample_tier_cache 100 80 110)) ''UNISWAP_V3:WETH-USDT:3000'') = Some 80
   \<and> map_option po_buyDex
       (detectSimpleArbitrage_pools sample_env (sample_tier_cache 100 110 0) ''WETH'' ''USDT'')
       = Some ''UNISWAP''
   \<and> map_option po_sellDex
       (detectSimpleArbitrage_pools sample_env (sample_tier_cache 100 110 0) ''WETH'' ''USDT'')
       = Some ''UNISWAP''
   \<and> map_option (pi_address \<circ> po_poolA)
       (detectSimpleArbitrage_pools sample_env (sample_tier_cache 100 110 0) ''WETH'' ''USDT'')
       = Some ''pool_UNISWAP_V3_WETH_USDT''
   \<and> map_option (pi_address \<circ> po_poolB)
       (detectSimpleArbitrage_pools sample_env (sample_tier_cache 100 110 0) ''WETH'' ''USDT'')
       = Some ''pool_UNISWAP_V3_WETH_USDT''"
proof -
  have first: "map_option buyPrice
      (detectSimpleArbitrage sample_env (sample_tier_cache 100 80 110) ''WETH'' ''USDT'') = Some 100"
    by (simp add: detectSimpleArbitrage_def getAllPrices_tiers detector_defs bignumber_defs)
  have cached: "map_option pd_price
      (map_of (prices (sample_tier_cache 100 80 110)) ''UNISWAP_V3:WETH-USDT:3000'') = Some 80"
    by (simp add: sample_tier_cache_def sample_observation_def)
  from first cached detect_pools_tiers(1,2,5,6) show ?thesis by simp
qed

text \<open>
  C2, amended.  In \<open>arbitrage-detector/index.js\<close> a candidate buys at the lowest and sells
  at the highest price among the observations returned by \<open>getAllPrices\<close> (one per queried
  venue: the first fee tier found), both sides are observations of that list, and its buy
  venue and pool string differ from its sell venue and pool string; whenever the selected
  best buy and best sell carry the same venue the function returns \<open>null\<close>.  Its selection
  loop, on any list of observations, yields a best buy not above and a best sell not below
  every observation with a non-zero price.

  In the version that scans all pools a candidate buys at the lowest and sells at the
  highest normalised price among all cached observations of the pair, in either
  direction, that have a non-zero price; both sides are such observations; and its buy
  pool identifier (venue, pair, fee tier) differs from its sell pool identifier.  Whenever
  best buy and best sell carry the same pool identifier the function returns \<open>null\<close>.
  Its venue names and pool addresses may coincide, as the counterexample shows.
\<close>

theorem simple_scan_selection:
  "(\<forall>c. detectSimpleArbitrage env pf tokenA tokenB = Some c \<longrightarrow>
      buyDex c \<noteq> sellDex c \<and> poolA c \<noteq> poolB c
    \<and> (\<forall>(d, p) \<in> set (getAllPrices pf tokenA tokenB).
          buyPrice c \<le> pd_price p \<and> pd_price p \<le> sellPrice c)
    \<and> (\<exists>(d, p) \<in> set (getAllPrices pf tokenA tokenB).
          pd_dex p = buyDex c \<and> pd_price p = buyPrice c)
    \<and> (\<exists>(d, p) \<in> set (getAllPrices pf tokenA tokenB).
          pd_dex p = sellDex c \<and> pd_price p = sellPrice c))
   \<and> (\<forall>bestBuy bestSell.
        bestBuySellLoop (getAllPrices pf tokenA tokenB) (None, None) = (Some bestBuy, Some bestSell)
        \<and> pd_dex bestBuy = pd_dex bestSell
        \<longrightarrow> detectSimpleArbitrage env pf tokenA tokenB = None)
   \<and> (\<forall>ps bestBuy bestSell.
        bestBuySellLoop ps (None, None) = (Some bestBuy, Some bestSell)
        \<longrightarrow> (\<forall>(d, p) \<in> set ps. pd_price p \<noteq> 0 \<longrightarrow>
              pd_price bestBuy \<le> pd_price p \<and> pd_price p \<le> pd_price bestSell))
   \<and> (\<forall>c. detectSimpleArbitrage_pools env pf tokenA tokenB = Some c \<longrightarrow>
        po_buyPool c \<noteq> po_sellPool c
      \<and> (\<forall>p \<in> set (relevantPrices pf tokenA tokenB). pd_price p \<noteq> 0 \<longrightarrow>
            po_buyPrice c \<le> pd_price (fst (normalized tokenA p))
          \<and> pd_price (fst (normalized tokenA p)) \<le> po_sellPrice c)
      \<and> (\<exists>p \<in> set (relevantPrices pf tokenA tokenB). pd_price p \<noteq> 0
          \<and> snd (normalized tokenA p) = po_buyPool c
          \<and> pd_price (fst (normalized tokenA p)) = po_buyPrice c)
      \<and> (\<exists>p \<in> set (relevantPrices pf tokenA tokenB). pd_price p \<noteq> 0
          \<and> snd (normalized tokenA p) = po_sellPool c
          \<and> pd_price (fst (normalized tokenA p)) = po_sellPrice c))
   \<and> (\<forall>bestBuy bestSell pool.
        bestPoolLoop tokenA (relevantPrices pf tokenA tokenB) (None, None)
          = (Some (bestBuy, pool), Some (bestSell, pool))
        \<longrightarrow> detectSimpleArbitrage_pools env pf tokenA tokenB = None)"
proof (intro conjI allI impI)
  fix c
  assume c: "detectSimpleArbitrage env pf tokenA tokenB = Some c"
  obtain x y where xy:
    "getAllPrices pf tokenA tokenB = [(''UNISWAP_V3'', x), (''SUSHISWAP_V3'', y)]"
    using detect_two_venues [OF c] by blast
  have sel: "buyDex c \<noteq> sellDex c \<and> poolA c \<noteq> poolB c
      \<and> (\<forall>(d, p) \<in> set (getAllPrices pf tokenA tokenB).
            buyPrice c \<le> pd_price p \<and> pd_price p \<le> sellPrice c)
      \<and> (\<exists>(d, p) \<in> set (getAllPrices pf tokenA tokenB).
            pd_dex p = buyDex c \<and> pd_price p = buyPrice c)
      \<and> (\<exists>(d, p) \<in> set (getAllPrices pf tokenA tokenB).
            pd_dex p = sellDex c \<and> pd_price p = sellPrice c)"
    using c unfolding detectSimpleArbitrage_def xy
    by (auto simp: Let_def poolAddress_inject split: if_splits)
  from sel show "buyDex c \<noteq> sellDex c" by simp
  from sel show "poolA c \<noteq> poolB c" by simp
  from sel show "\<forall>(d, p) \<in> set (getAllPrices pf tokenA tokenB).
      buyPrice c \<le> pd_price p \<and> pd_price p \<le> sellPrice c" by simp
  from sel show "\<exists>(d, p) \<in> set (getAllPrices pf tokenA tokenB).
      pd_dex p = buyDex c \<and> pd_price p = buyPrice c" by simp
  from sel show "\<exists>(d, p) \<in> set (getAllPrices pf tokenA tokenB).
      pd_dex p = sellDex c \<and> pd_price p = sellPrice c" by simp
next
  fix bestBuy bestSell
  assume "bestBuySellLoop (getAllPrices pf tokenA tokenB) (None, None) = (Some bestBuy, Some bestSell)
      \<and> pd_dex bestBuy = pd_dex bestSell"
  then show "detectSimpleArbitrage env pf tokenA tokenB = None"
    by (simp add: detectSimpleArbitrage_def Let_def)
next
  fix ps bestBuy bestSell
  assume "bestBuySellLoop ps (None, None) = (Some bestBuy, Some bestSell)"
  from bestBuySellLoop_bounds [OF this]
  show "\<forall>(d, p) \<in> set ps. pd_price p \<noteq> 0 \<longrightarrow>
      pd_price bestBuy \<le> pd_price p \<and> pd_price p \<le> pd_price bestSell"
    by auto
next
  fix c
  assume c: "detectSimpleArbitrage_pools env pf tokenA tokenB = Some c"
  from detect_pools_selected [OF c] obtain bestBuy bestSell where
    loop: "bestPoolLoop tokenA (relevantPrices pf tokenA tokenB) (None, None)
        = (Some (bestBuy, po_buyPool c), Some (bestSell, po_sellPool c))"
    and ne: "po_buyPool c \<noteq> po_sellPool c"
    and buy: "pd_price bestBuy = po_buyPrice c" and sell: "pd_price bestSell = po_sellPrice c"
    by blast
  from ne show "po_buyPool c \<noteq> po_sellPool c" .
  from bestPoolLoop_bounds [OF loop] buy sell
  show "\<forall>p \<in> set (relevantPrices pf tokenA tokenB). pd_price p \<noteq> 0 \<longrightarrow>
      po_buyPrice c \<le> pd_price (fst (normalized tokenA p))
    \<and> pd_price (fst (normalized tokenA p)) \<le> po_sellPrice c"
    by auto
  from bestPoolLoop_member [OF loop] obtain p q where
    p: "p \<in> set (relevantPrices pf tokenA tokenB)" "pd_price p \<noteq> 0"
      "normalized tokenA p = (bestBuy, po_buyPool c)"
    and q: "q \<in> set (relevantPrices pf tokenA tokenB)" "pd_price q \<noteq> 0"
      "normalized tokenA q = (bestSell, po_sellPool c)"
    by auto
  from p buy
  show "\<exists>p \<in> set (relevantPrices pf tokenA tokenB). pd_price p \<noteq> 0
      \<and> snd (normalized tokenA p) = po_buyPool c
      \<and> pd_price (fst (normalized tokenA p)) = po_buyPrice c"
    by (intro bexI [of _ p]) simp_all
  from q sell
  show "\<exists>p \<in> set (relevantPrices pf tokenA tokenB). pd_price p \<noteq> 0
      \<and> snd (normalized tokenA p) = po_sellPool c
      \<and> pd_price (fst (normalized tokenA p)) = po_sellPrice c"
    by (intro bexI [of _ q]) simp_all
next
  fix bestBuy bestSell pool
  assume "bestPoolLoop tokenA (relevantPrices pf tokenA tokenB) (None, None)
      = (Some (bestBuy, pool), Some (bestSell, pool))"
  then show "detectSimpleArbitrage_pools env pf tokenA tokenB = None"
    by (simp add: detectSimpleArbitrage_pools_def Let_def)
qed

text \<open>
  The sample candidate of \<open>arbitrage-detector/index.js\<close> buys on one venue at 100 and sells
  on the other at 110; with a zero price on the second venue both selections are the first
  venue's observation and nothing is returned.  Over all pools, with UNISWAP_V3 at 100
  and 80 and SUSHISWAP_V3 at 110, the candidate buys at 80 in the pool of tier 3000 and
  sells at 110; with a single non-zero observation both selections are its pool and
  nothing is returned.
\<close>

theorem simple_scan_selection_witness:
  "detectSimpleArbitrage sample_env (sample_cache 100 110) ''WETH'' ''USDT'' = Some sample_candidate
   \<and> buyDex sample_candidate \<noteq> sellDex sample_candidate
   \<and> poolA sample_candidate \<noteq> poolB sample_candidate
   \<and> buyPrice sample_candidate \<le> 100 \<and> 110 \<le> sellPrice sample_candidate
   \<and> detectSimpleArbitrage sample_env (sample_cache 100 0) ''WETH'' ''USDT'' = None
   \<and> map_option po_buyPool
       (detectSimpleArbitrage_pools sample_env (sample_tier_cache 100 80 110) ''WETH'' ''USDT'')
       = Some ''UNISWAP_V3_WETH_USDT_3000''
   \<and> map_option po_sellPool
       (detectSimpleArbitrage_pools sample_env (sample_tier_cache 100 80 110) ''WETH'' ''USDT'')
       = Some ''SUSHISWAP_V3_WETH_USDT_3000''
   \<and> map_option po_buyPrice
       (detectSimpleArbitrage_pools sample_env (sample_tier_cache 100 80 110) ''WETH'' ''USDT'')
       = Some 80
   \<and> detectSimpleArbitrage_pools sample_env (sample_tier_cache 100 0 0) ''WETH'' ''USDT'' = None"
proof -
  note sel = simple_scan_selection [of sample_env "sample_cache 100 110" "''WETH''" "''USDT''"]
  from sel detect_sample have venues: "buyDex sample_candidate \<noteq> sellDex sample_candidate
      \<and> poolA sample_candidate \<noteq> poolB sample_candidate"
    by blast
  from sel detect_sample have "\<forall>(d, p) \<in> set (getAllPrices (sample_cache 100 110) ''WETH'' ''USDT'').
      buyPrice sample_candidate \<le> pd_price p \<and> pd_price p \<le> sellPrice sample_candidate"
    by blast
  then have bounds: "buyPrice sample_candidate \<le> 100 \<and> 110 \<le> sellPrice sample_candidate"
    by (simp add: getAllPrices_sample sample_observation_def)
  have same: "bestBuySellLoop (getAllPrices (sample_cache 100 0) ''WETH'' ''USDT'') (None, None) =
      (Some (sample_observation ''UNISWAP_V3'' ''WETH'' ''USDT'' 100),
       Some (sample_observation ''UNISWAP_V3'' ''WETH'' ''USDT'' 100))"
    by (simp add: getAllPrices_sample sample_observation_def)
  have none: "detectSimpleArbitrage sample_env (sample_cache 100 0) ''WETH'' ''USDT'' = None"
    using simple_scan_selection [of sample_env "sample_cache 100 0" "''WETH''" "''USDT''"] same
    by blast
  obtain c where c: "detectSimpleArbitrage_pools sample_env (sample_tier_cache 100 80 110)
      ''WETH'' ''USDT'' = Some c"
    and pools: "po_buyPool c = ''UNISWAP_V3_WETH_USDT_3000''"
      "po_sellPool c = ''SUSHISWAP_V3_WETH_USDT_3000''"
    by (simp add: detectSimpleArbitrage_pools_def relevantPrices_tiers normalized_def
        poolId_def string_of_nat_tiers detector_defs bignumber_defs)
  note selp = simple_scan_selection [of sample_env "sample_tier_cache 100 80 110" "''WETH''" "''USDT''"]
  from selp c have low: "\<forall>p \<in> set (relevantPrices (sample_tier_cache 100 80 110) ''WETH'' ''USDT'').
      pd_price p \<noteq> 0 \<longrightarrow> po_buyPrice c \<le> pd_price (fst (normalized ''WETH'' p))"
    by blast
  from selp c have mem: "\<exists>p \<in> set (relevantPrices (sample_tier_cache 100 80 110) ''WETH'' ''USDT'').
      pd_price p \<noteq> 0 \<and> snd (normalized ''WETH'' p) = po_buyPool c
      \<and> pd_price (fst (normalized ''WETH'' p)) = po_buyPrice c"
    by blast
  from low have "po_buyPrice c \<le> 80"
    by (simp add: relevantPrices_tiers normalized_def sample_observation_def)
  moreover from mem have "80 \<le> po_buyPrice c"
    by (auto simp: relevantPrices_tiers normalized_def sample_observation_def)
  ultimately have price: "po_buyPrice c = 80" by simp
  have one: "bestPoolLoop ''WETH'' (relevantPrices (sample_tier_cache 100 0 0) ''WETH'' ''USDT'')
      (None, None) =
      (Some ((sample_observation ''UNISWAP_V3'' ''WETH'' ''USDT'' 100)\<lparr> pd_feeTier := 500 \<rparr>,
             ''UNISWAP_V3_WETH_USDT_500''),
       Some ((sample_observation ''UNISWAP_V3'' ''WETH'' ''USDT'' 100)\<lparr> pd_feeTier := 500 \<rparr>,
             ''UNISWAP_V3_WETH_USDT_500''))"
    by (simp add: relevantPrices_tiers normalized_def poolId_def string_of_nat_tiers
        sample_observation_def)
  have nonep: "detectSimpleArbitrage_pools sample_env (sample_tier_cache 100 0 0) ''WETH'' ''USDT''
      = None"
    using simple_scan_selection [of sample_env "sample_tier_cache 100 0 0" "''WETH''" "''USDT''"] one
    by blast
  from venues bounds detect_sample none c pools price nonep show ?thesis by simp
qed

section \<open>The triangular scan\<close>

lemma getBestPrice_cycle:
  "getBestPrice (sample_cycle_cache p1 p2 p3) ''USDC'' ''WETH'' =
     (if p1 > 0 then Some (sample_observation ''UNISWAP_V3'' ''USDC'' ''WETH'' p1, ''UNISWAP_V3'')
      else None)"
  "getBestPrice (sample_cycle_cache p1 p2 p3) ''WETH'' ''WBTC'' =
     (if p2 > 0 then Some (sample_observation ''UNISWAP_V3'' ''WETH'' ''WBTC'' p2, ''UNISWAP_V3'')
      else None)"
  "getBestPrice (sample_cycle_cache p1 p2 p3) ''WBTC'' ''USDC'' =
     (if p3 > 0 then Some (sample_observation ''UNISWAP_V3'' ''WBTC'' ''USDC'' p3, ''UNISWAP_V3'')
      else None)"
  by (simp_all add: getBestPrice_def queriedDexes_def getPrice_def getPriceKey_def
      string_of_nat_tiers sample_cycle_cache_def sample_observation_def)

text \<open>
  C3.  A candidate returned by \<open>detectTriangularPath\<close> carries an effective rate equal to
  the product of the three best leg prices (BigNumber multiplication is exact), a profit
  rate equal to the effective rate minus one, and that profit rate is not below 0.005.
  Whenever the three legs are priced and the product minus one is below 0.005, the
  function returns \<open>null\<close>.
\<close>

theorem triangular_rate:
  "(\<forall>c. detectTriangularPath env pf (tokenA, tokenB, tokenC) = Some c \<longrightarrow>
      (\<exists>pAB dAB pBC dBC pCA dCA.
          getBestPrice pf tokenA tokenB = Some (pAB, dAB)
        \<and> getBestPrice pf tokenB tokenC = Some (pBC, dBC)
        \<and> getBestPrice pf tokenC tokenA = Some (pCA, dCA)
        \<and> effectiveRate c = pd_price pAB * pd_price pBC * pd_price pCA)
      \<and> profitRate c = effectiveRate c - 1
      \<and> \<not> profitRate c < 5 / 1000)
   \<and> (\<forall>pAB dAB pBC dBC pCA dCA.
        getBestPrice pf tokenA tokenB = Some (pAB, dAB)
        \<and> getBestPrice pf tokenB tokenC = Some (pBC, dBC)
        \<and> getBestPrice pf tokenC tokenA = Some (pCA, dCA)
        \<and> pd_price pAB * pd_price pBC * pd_price pCA - 1 < 5 / 1000
        \<longrightarrow> detectTriangularPath env pf (tokenA, tokenB, tokenC) = None)"
  by (auto simp: detectTriangularPath_def Let_def split: if_splits option.splits prod.splits)

text \<open>
  Leg prices 2, 3 and 1/5 compound to 6/5: a candidate with profit rate 1/5.  Leg prices
  1, 1 and 1.004 compound to a profit rate of 0.004: no candidate.
\<close>

theorem triangular_rate_witness:
  "map_option effectiveRate
     (detectTriangularPath sample_env (sample_cycle_cache 2 3 (1 / 5)) (''USDC'', ''WETH'', ''WBTC''))
     = Some (6 / 5)
   \<and> map_option profitRate
     (detectTriangularPath sample_env (sample_cycle_cache 2 3 (1 / 5)) (''USDC'', ''WETH'', ''WBTC''))
     = Some (1 / 5)
   \<and> detectTriangularPath sample_env (sample_cycle_cache 1 1 (251 / 250))
       (''USDC'', ''WETH'', ''WBTC'') = None"
proof -
  obtain c where c: "detectTriangularPath sample_env (sample_cycle_cache 2 3 (1 / 5))
      (''USDC'', ''WETH'', ''WBTC'') = Some c"
    by (simp add: detectTriangularPath_def getBestPrice_cycle detector_defs bignumber_defs
        calculateTriangularSwapFees_def feeRateTimes_def estimateTriangularGasCost_def)
  from triangular_rate [of sample_env "sample_cycle_cache 2 3 (1 / 5)" "''USDC''" "''WETH''" "''WBTC''"] c
  have "effectiveRate c = 6 / 5 \<and> profitRate c = effectiveRate c - 1"
    by (auto simp: getBestPrice_cycle sample_observation_def)
  then have emitted: "effectiveRate c = 6 / 5 \<and> profitRate c = 1 / 5" by simp
  have "detectTriangularPath sample_env (sample_cycle_cache 1 1 (251 / 250))
      (''USDC'', ''WETH'', ''WBTC'') = None"
    using triangular_rate [of sample_env "sample_cycle_cache 1 1 (251 / 250)"
        "''USDC''" "''WETH''" "''WBTC''"]
    by (simp add: getBestPrice_cycle sample_observation_def)
  with c emitted show ?thesis by simp
qed

section \<open>The price normalizer\<close>

lemmas double_defs = toDouble_def roundTo_def roundHalfEven_def pow2_def lg2.simps Let_def
  finiteValue_def isNegative_def signedInfinity_def signedZero_def dneg_def dabs_def
  dadd_def dsub_def dmul_def ddiv_def rank_def dgt_def isZero_def orZero_def

lemmas normalizer_defs = normalizePrice_def inversionStep_def inversionTest_def sanityClamp_def
  substitute_def deviation_def fixDecimalScaling_def decimalsOr18_def usdPriceOr0_def
  PriceNormalizer_new_def pow10_def

lemma pow10_0: "pow10 0 = Fin 1"
  by (simp add: pow10_def double_defs)

lemma reference_WETH_DAI:
  "usdPriceOr0 PriceNormalizer_new ''WETH'' = Fin 2650"
  "usdPriceOr0 PriceNormalizer_new ''DAI'' = Fin 1"
  "fixDecimalScaling PriceNormalizer_new ''WETH'' ''DAI'' x = ddiv x (Fin 1)"
  "fixDecimalScaling PriceNormalizer_new ''DAI'' ''WETH'' x = ddiv x (Fin 1)"
  by (simp_all add: usdPriceOr0_def orZero_def isZero_def fixDecimalScaling_def decimalsOr18_def
      PriceNormalizer_new_def pow10_0)

lemma ratio_WETH_DAI:
  "ddiv (Fin 2650) (Fin 1) = Fin 2650"
  "ddiv (Fin 1) (Fin 2650) = Fin (3480517749756519 / 9223372036854775808)"
  by (simp_all add: double_defs)

lemma substitute_2650:
  "substitute (Fin 0) (Fin 2650) = Fin 2597"
  "substitute (Fin (1 / 4)) (Fin 2650) = Fin (5247 / 2)"
  "substitute (Fin (1 / 2)) (Fin 2650) = Fin 2650"
  "substitute (Fin (3 / 4)) (Fin 2650) = Fin (5353 / 2)"
  by (simp_all add: substitute_def double_defs)

lemma normalizePrice_steps:
  assumes "normalizePrice pn random tokenA tokenB rawPrice = Some r"
  shows "np_scaledPrice r = fixDecimalScaling pn tokenA tokenB rawPrice"
    and "np_expectedRatio r = ddiv (usdPriceOr0 pn tokenA) (usdPriceOr0 pn tokenB)"
    and "(tokenBPerTokenA r, wasInverted r) =
      sanityClamp random (np_expectedRatio r) (inversionStep (np_scaledPrice r) (np_expectedRatio r))"
  using assms by (auto simp: normalizePrice_def Let_def split: if_splits prod.splits)

lemma normalizePrice_WETH_DAI:
  "map_option np_scaledPrice (normalizePrice PriceNormalizer_new random ''WETH'' ''DAI'' rawPrice)
     = Some (ddiv rawPrice (Fin 1))"
  "map_option np_expectedRatio (normalizePrice PriceNormalizer_new random ''WETH'' ''DAI'' rawPrice)
     = Some (Fin 2650)"
  "map_option tokenBPerTokenA (normalizePrice PriceNormalizer_new random ''WETH'' ''DAI'' rawPrice)
     = Some (fst (sanityClamp random (Fin 2650) (inversionStep (ddiv rawPrice (Fin 1)) (Fin 2650))))"
  "map_option wasInverted (normalizePrice PriceNormalizer_new random ''WETH'' ''DAI'' rawPrice)
     = Some (snd (sanityClamp random (Fin 2650) (inversionStep (ddiv rawPrice (Fin 1)) (Fin 2650))))"
  by (simp_all add: normalizePrice_def reference_WETH_DAI ratio_WETH_DAI isZero_def Let_def
      split: prod.splits)

lemma normalizePrice_DAI_WETH:
  "map_option np_scaledPrice (normalizePrice PriceNormalizer_new random ''DAI'' ''WETH'' rawPrice)
     = Some (ddiv rawPrice (Fin 1))"
  "map_option np_expectedRatio (normalizePrice PriceNormalizer_new random ''DAI'' ''WETH'' rawPrice)
     = Some (Fin (3480517749756519 / 9223372036854775808))"
  "map_option tokenBPerTokenA (normalizePrice PriceNormalizer_new random ''DAI'' ''WETH'' rawPrice)
     = Some (fst (sanityClamp random (Fin (3480517749756519 / 9223372036854775808))
         (inversionStep (ddiv rawPrice (Fin 1)) (Fin (3480517749756519 / 9223372036854775808)))))"
  "map_option wasInverted (normalizePrice PriceNormalizer_new random ''DAI'' ''WETH'' rawPrice)
     = Some (snd (sanityClamp random (Fin (3480517749756519 / 9223372036854775808))
         (inversionStep (ddiv rawPrice (Fin 1)) (Fin (3480517749756519 / 9223372036854775808)))))"
  by (simp_all add: normalizePrice_def reference_WETH_DAI ratio_WETH_DAI isZero_def Let_def
      split: prod.splits)

text \<open>
  The steps for four raw WETH/DAI prices: 0.5 (the reciprocal 2 is nearer to 2650, and
  still more than 50% away), \<open>2^-11\<close> (the reciprocal 2048 is within 50%), 2650 and
  2600 (kept).
\<close>

lemma steps_half:
  "ddiv (Fin (1 / 2)) (Fin 1) = Fin (1 / 2)"
  "inversionTest (Fin (1 / 2)) (Fin 2650)"
  "ddiv (Fin 1) (Fin (1 / 2)) = Fin 2"
  "dgt (deviation (Fin 2) (Fin 2650)) (Fin (1 / 2))"
  by (simp_all add: inversionTest_def deviation_def double_defs)

lemma steps_2048:
  "ddiv (Fin (1 / 2048)) (Fin 1) = Fin (1 / 2048)"
  "inversionTest (Fin (1 / 2048)) (Fin 2650)"
  "ddiv (Fin 1) (Fin (1 / 2048)) = Fin 2048"
  "\<not> dgt (deviation (Fin 2048) (Fin 2650)) (Fin (1 / 2))"
  by (simp_all add: inversionTest_def deviation_def double_defs)

lemma steps_2650:
  "ddiv (Fin 2650) (Fin 1) = Fin 2650"
  "\<not> inversionTest (Fin 2650) (Fin 2650)"
  "\<not> dgt (deviation (Fin 2650) (Fin 2650)) (Fin (1 / 2))"
  by (simp_all add: inversionTest_def deviation_def double_defs)

lemma steps_2600:
  "ddiv (Fin 2600) (Fin 1) = Fin 2600"
  "\<not> inversionTest (Fin 2600) (Fin 2650)"
  "\<not> dgt (deviation (Fin 2600) (Fin 2650)) (Fin (1 / 2))"
  by (simp_all add: inversionTest_def deviation_def double_defs)

text \<open>
  A raw DAI/WETH price of 1766.6666666666667.  Its reciprocal is the double
  0.0005660377358490566, whose computed deviation from the expected ratio
  0.0003773584905660377 is 0.5000000000000001: the clamp fires, although the exact
  quotient of the two differences is below one half.
\<close>

lemma steps_1766:
  "ddiv (Fin (7769882169617067 / 4398046511104)) (Fin 1) = Fin (7769882169617067 / 4398046511104)"
  "inversionTest (Fin (7769882169617067 / 4398046511104))
     (Fin (3480517749756519 / 9223372036854775808))"
  "ddiv (Fin 1) (Fin (7769882169617067 / 4398046511104))
     = Fin (5220776624634779 / 9223372036854775808)"
  "deviation (Fin (5220776624634779 / 9223372036854775808))
     (Fin (3480517749756519 / 9223372036854775808))
     = Fin (4503599627370497 / 9007199254740992)"
  "substitute (Fin 0) (Fin (3480517749756519 / 9223372036854775808))
     = Fin (6821814789522777 / 18446744073709551616)"
  by (simp_all add: inversionTest_def deviation_def substitute_def double_defs)

lemma clamp_fires:
  "dgt (deviation (fst cw) e) (Fin (1 / 2)) \<Longrightarrow> sanityClamp random e cw = (substitute random e, False)"
  by (simp add: sanityClamp_def)

lemma clamp_rests:
  "\<not> dgt (deviation (fst cw) e) (Fin (1 / 2)) \<Longrightarrow> sanityClamp random e cw = cw"
  by (simp add: sanityClamp_def)

lemma result_half:
  "inversionStep (Fin (1 / 2)) (Fin 2650) = (Fin 2, True)"
  "sanityClamp random (Fin 2650) (Fin 2, True) = (substitute random (Fin 2650), False)"
  by (simp_all add: steps_half inversionStep_def clamp_fires)

lemma result_2650:
  "inversionStep (Fin 2650) (Fin 2650) = (Fin 2650, False)"
  "sanityClamp random (Fin 2650) (Fin 2650, False) = (Fin 2650, False)"
  by (simp_all add: steps_2650 inversionStep_def clamp_rests)

text \<open>
  C4 as stated fails.  For WETH/DAI (reference ratio 2650) and a raw price of 0.5 the
  scaled price 0.5 is farther from 2650 than its reciprocal 2, both exactly and as the
  code computes it, yet the reciprocal still deviates by more than 50%, so the sanity
  clamp replaces the price (here by 2623.5, for a random draw of 0.25) and clears the
  inversion flag.
\<close>

theorem inversion_flag_counterexample:
  "\<bar>1 / 2 - 2650 :: rat\<bar> > \<bar>1 / (1 / 2) - 2650\<bar>
   \<and> inversionTest (Fin (1 / 2)) (Fin 2650)
   \<and> map_option np_expectedRatio
       (normalizePrice PriceNormalizer_new (Fin (1 / 4)) ''WETH'' ''DAI'' (Fin (1 / 2)))
       = Some (Fin 2650)
   \<and> map_option np_scaledPrice
       (normalizePrice PriceNormalizer_new (Fin (1 / 4)) ''WETH'' ''DAI'' (Fin (1 / 2)))
       = Some (Fin (1 / 2))
   \<and> map_option wasInverted
       (normalizePrice PriceNormalizer_new (Fin (1 / 4)) ''WETH'' ''DAI'' (Fin (1 / 2)))
       = Some False
   \<and> map_option tokenBPerTokenA
       (normalizePrice PriceNormalizer_new (Fin (1 / 4)) ''WETH'' ''DAI'' (Fin (1 / 2)))
       = Some (Fin (5247 / 2))"
  by (simp add: normalizePrice_WETH_DAI result_half steps_half substitute_2650)

text \<open>
  C4, amended.  All quantities are the doubles the code computes.  For tokens with known
  reference prices, the result records the scaled price and the expected ratio.  If the
  inversion test holds of them (the computed distance of the scaled price from the
  expected ratio exceeds the computed distance of its computed reciprocal) and the
  computed deviation of the reciprocal from the expected ratio does not exceed 0.5, the
  inversion flag is set and the forward price is the computed reciprocal of the scaled
  price.  If the computed deviation of the price left by the inversion test exceeds 0.5,
  the flag is cleared and the forward price is the substitute
  \<open>expectedRatio * (1 + (Math.random() - 0.5) * 0.04)\<close>.
\<close>

theorem inversion_flag:
  assumes "normalizePrice pn random tokenA tokenB rawPrice = Some r"
  shows "np_scaledPrice r = fixDecimalScaling pn tokenA tokenB rawPrice
    \<and> np_expectedRatio r = ddiv (usdPriceOr0 pn tokenA) (usdPriceOr0 pn tokenB)
    \<and> (inversionTest (np_scaledPrice r) (np_expectedRatio r)
        \<and> \<not> dgt (deviation (ddiv (Fin 1) (np_scaledPrice r)) (np_expectedRatio r)) (Fin (1 / 2))
        \<longrightarrow> wasInverted r \<and> tokenBPerTokenA r = ddiv (Fin 1) (np_scaledPrice r))
    \<and> (dgt (deviation (fst (inversionStep (np_scaledPrice r) (np_expectedRatio r)))
          (np_expectedRatio r)) (Fin (1 / 2))
        \<longrightarrow> \<not> wasInverted r
          \<and> tokenBPerTokenA r = dmul (np_expectedRatio r)
              (dadd (Fin 1) (dmul (dsub random (Fin (1 / 2))) (toDouble False (4 / 100)))))"
  using assms
  by (auto simp: normalizePrice_def Let_def inversionStep_def sanityClamp_def substitute_def
      split: if_splits prod.splits)

text \<open>
  A raw WETH/DAI price of \<open>2^-11\<close> is an inverted quote: the flag is set and the forward
  price is 2048.  A raw DAI/WETH price of 1766.6666666666667 has a reciprocal whose
  computed deviation is 0.5000000000000001: the flag is cleared and, for a draw of 0,
  the forward price is 0.00036981132075471695.
\<close>

theorem inversion_flag_witness:
  "map_option wasInverted
     (normalizePrice PriceNormalizer_new (Fin (1 / 4)) ''WETH'' ''DAI'' (Fin (1 / 2048))) = Some True
   \<and> map_option tokenBPerTokenA
     (normalizePrice PriceNormalizer_new (Fin (1 / 4)) ''WETH'' ''DAI'' (Fin (1 / 2048)))
     = Some (Fin 2048)
   \<and> map_option wasInverted
     (normalizePrice PriceNormalizer_new (Fin 0) ''DAI'' ''WETH''
        (Fin (7769882169617067 / 4398046511104))) = Some False
   \<and> map_option tokenBPerTokenA
     (normalizePrice PriceNormalizer_new (Fin 0) ''DAI'' ''WETH''
        (Fin (7769882169617067 / 4398046511104)))
     = Some (Fin (6821814789522777 / 18446744073709551616))"
proof -
  obtain r where r: "normalizePrice PriceNormalizer_new (Fin (1 / 4)) ''WETH'' ''DAI''
      (Fin (1 / 2048)) = Some r"
    using normalizePrice_WETH_DAI(1) [of "Fin (1 / 4)" "Fin (1 / 2048)"] by blast
  have sr: "np_scaledPrice r = Fin (1 / 2048)"
    using normalizePrice_WETH_DAI(1) [of "Fin (1 / 4)" "Fin (1 / 2048)"]
    unfolding r steps_2048 by simp
  have er: "np_expectedRatio r = Fin 2650"
    using normalizePrice_WETH_DAI(2) [of "Fin (1 / 4)" "Fin (1 / 2048)"]
    unfolding r by simp
  from inversion_flag [OF r] have "wasInverted r \<and> tokenBPerTokenA r = Fin 2048"
    unfolding sr er using steps_2048 by simp
  with r have inverted: "map_option wasInverted
      (normalizePrice PriceNormalizer_new (Fin (1 / 4)) ''WETH'' ''DAI'' (Fin (1 / 2048))) = Some True
    \<and> map_option tokenBPerTokenA
      (normalizePrice PriceNormalizer_new (Fin (1 / 4)) ''WETH'' ''DAI'' (Fin (1 / 2048)))
      = Some (Fin 2048)"
    by simp
  obtain q where q: "normalizePrice PriceNormalizer_new (Fin 0) ''DAI'' ''WETH''
      (Fin (7769882169617067 / 4398046511104)) = Some q"
    using normalizePrice_DAI_WETH(1) [of "Fin 0" "Fin (7769882169617067 / 4398046511104)"]
    by blast
  have sq: "np_scaledPrice q = Fin (7769882169617067 / 4398046511104)"
    using normalizePrice_DAI_WETH(1) [of "Fin 0" "Fin (7769882169617067 / 4398046511104)"]
    unfolding q steps_1766 by simp
  have eq: "np_expectedRatio q = Fin (3480517749756519 / 9223372036854775808)"
    using normalizePrice_DAI_WETH(2) [of "Fin 0" "Fin (7769882169617067 / 4398046511104)"]
    unfolding q by simp
  have fires: "dgt (Fin (4503599627370497 / 9007199254740992)) (Fin (1 / 2))"
    by (simp add: dgt_def rank_def)
  have sub: "dmul (Fin (3480517749756519 / 9223372036854775808))
      (dadd (Fin 1) (dmul (dsub (Fin 0) (Fin (1 / 2))) (toDouble False (4 / 100))))
      = Fin (6821814789522777 / 18446744073709551616)"
    using steps_1766(5) by (simp add: substitute_def)
  from inversion_flag [OF q]
  have "\<not> wasInverted q \<and> tokenBPerTokenA q = Fin (6821814789522777 / 18446744073709551616)"
    unfolding sq eq sub using fires by (simp add: inversionStep_def steps_1766)
  with q inverted show ?thesis by simp
qed

text \<open>
  C5 as stated fails: the result has one flag, \<open>wasInverted\<close>, and the sanity clamp
  clears it.  For WETH/DAI a raw price of 0.5 is replaced (computed deviation above 0.5)
  and a raw price of 2650 is kept (deviation 0); both results have
  \<open>wasInverted = false\<close>, and for a random draw of 0.5 both have the same forward price
  2650.
\<close>

theorem fallback_flag_counterexample:
  "dgt (deviation (fst (inversionStep
        (fixDecimalScaling PriceNormalizer_new ''WETH'' ''DAI'' (Fin (1 / 2))) (Fin 2650)))
        (Fin 2650)) (Fin (1 / 2))
   \<and> \<not> dgt (deviation (fst (inversionStep
        (fixDecimalScaling PriceNormalizer_new ''WETH'' ''DAI'' (Fin 2650)) (Fin 2650)))
        (Fin 2650)) (Fin (1 / 2))
   \<and> map_option np_expectedRatio
       (normalizePrice PriceNormalizer_new (Fin (1 / 2)) ''WETH'' ''DAI'' (Fin (1 / 2)))
       = Some (Fin 2650)
   \<and> map_option np_expectedRatio
       (normalizePrice PriceNormalizer_new (Fin (1 / 2)) ''WETH'' ''DAI'' (Fin 2650))
       = Some (Fin 2650)
   \<and> map_option wasInverted
       (normalizePrice PriceNormalizer_new (Fin (1 / 2)) ''WETH'' ''DAI'' (Fin (1 / 2)))
       = Some False
   \<and> map_option wasInverted
       (normalizePrice PriceNormalizer_new (Fin (1 / 2)) ''WETH'' ''DAI'' (Fin 2650))
       = Some False
   \<and> map_option tokenBPerTokenA
       (normalizePrice PriceNormalizer_new (Fin (1 / 2)) ''WETH'' ''DAI'' (Fin (1 / 2)))
       = Some (Fin 2650)
   \<and> map_option tokenBPerTokenA
       (normalizePrice PriceNormalizer_new (Fin (1 / 2)) ''WETH'' ''DAI'' (Fin 2650))
       = Some (Fin 2650)"
  by (simp add: normalizePrice_WETH_DAI reference_WETH_DAI result_half result_2650
      steps_half steps_2650 substitute_2650)

text \<open>
  C5, amended.  All quantities are the doubles the code computes.  When the computed
  deviation of the price left by the inversion test from the expected ratio exceeds 0.5,
  the forward price is the substitute \<open>expectedRatio * (1 + (Math.random() - 0.5) * 0.04)\<close>
  and \<open>wasInverted\<close> is false.  No field is set for the substitution: \<open>wasInverted\<close>, the
  only flag of the result, is equally false when the scaled price passes both tests and
  is returned as observed.
\<close>

theorem fallback_substitution:
  assumes "normalizePrice pn random tokenA tokenB rawPrice = Some r"
  shows "(dgt (deviation (fst (inversionStep (np_scaledPrice r) (np_expectedRatio r)))
            (np_expectedRatio r)) (Fin (1 / 2))
          \<longrightarrow> tokenBPerTokenA r = substitute random (np_expectedRatio r)
            \<and> \<not> wasInverted r)
       \<and> (\<not> inversionTest (np_scaledPrice r) (np_expectedRatio r)
          \<and> \<not> dgt (deviation (np_scaledPrice r) (np_expectedRatio r)) (Fin (1 / 2))
          \<longrightarrow> tokenBPerTokenA r = np_scaledPrice r \<and> \<not> wasInverted r)"
  using assms
  by (auto simp: normalizePrice_def Let_def inversionStep_def sanityClamp_def
      split: if_splits prod.splits)

text \<open>
  For a raw WETH/DAI price of 0.5 and a draw of 0.25 the substitute is 2623.5; a raw
  price of 2600 is returned as observed.  Both results have the flag cleared.
\<close>

theorem fallback_substitution_witness:
  "map_option tokenBPerTokenA
     (normalizePrice PriceNormalizer_new (Fin (1 / 4)) ''WETH'' ''DAI'' (Fin (1 / 2)))
     = Some (Fin (5247 / 2))
   \<and> map_option wasInverted
       (normalizePrice PriceNormalizer_new (Fin (1 / 4)) ''WETH'' ''DAI'' (Fin (1 / 2)))
       = Some False
   \<and> map_option tokenBPerTokenA
       (normalizePrice PriceNormalizer_new (Fin (1 / 4)) ''WETH'' ''DAI'' (Fin 2600))
       = Some (Fin 2600)
   \<and> map_option wasInverted
       (normalizePrice PriceNormalizer_new (Fin (1 / 4)) ''WETH'' ''DAI'' (Fin 2600))
       = Some False"
proof -
  obtain r where r: "normalizePrice PriceNormalizer_new (Fin (1 / 4)) ''WETH'' ''DAI''
      (Fin (1 / 2)) = Some r"
    using normalizePrice_WETH_DAI(1) [of "Fin (1 / 4)" "Fin (1 / 2)"] by blast
  have sr: "np_scaledPrice r = Fin (1 / 2)"
    using normalizePrice_WETH_DAI(1) [of "Fin (1 / 4)" "Fin (1 / 2)"]
    unfolding r steps_half by simp
  have er: "np_expectedRatio r = Fin 2650"
    using normalizePrice_WETH_DAI(2) [of "Fin (1 / 4)" "Fin (1 / 2)"]
    unfolding r by simp
  from fallback_substitution [OF r]
  have "tokenBPerTokenA r = Fin (5247 / 2) \<and> \<not> wasInverted r"
    unfolding sr er using steps_half by (simp add: inversionStep_def substitute_2650)
  with r have replaced: "map_option tokenBPerTokenA
      (normalizePrice PriceNormalizer_new (Fin (1 / 4)) ''WETH'' ''DAI'' (Fin (1 / 2)))
      = Some (Fin (5247 / 2))
    \<and> map_option wasInverted
      (normalizePrice PriceNormalizer_new (Fin (1 / 4)) ''WETH'' ''DAI'' (Fin (1 / 2)))
      = Some False"
    by simp
  obtain q where q: "normalizePrice PriceNormalizer_new (Fin (1 / 4)) ''WETH'' ''DAI''
      (Fin 2600) = Some q"
    using normalizePrice_WETH_DAI(1) [of "Fin (1 / 4)" "Fin 2600"] by blast
  have sq: "np_scaledPrice q = Fin 2600"
    using normalizePrice_WETH_DAI(1) [of "Fin (1 / 4)" "Fin 2600"]
    unfolding q steps_2600 by simp
  have eq: "np_expectedRatio q = Fin 2650"
    using normalizePrice_WETH_DAI(2) [of "Fin (1 / 4)" "Fin 2600"]
    unfolding q by simp
  from fallback_substitution [OF q]
  have "tokenBPerTokenA q = Fin 2600 \<and> \<not> wasInverted q"
    unfolding sq eq using steps_2600 by simp
  with q replaced show ?thesis by simp
qed

text \<open>
  C6 as stated fails: with the same tokens, raw price and reference table, two calls
  whose \<open>Math.random()\<close> draws are 0 and 0.75 return the forward prices 2597 and 2676.5.
\<close>

theorem normalize_deterministic_counterexample:
  "map_option tokenBPerTokenA
     (normalizePrice PriceNormalizer_new (Fin 0) ''WETH'' ''DAI'' (Fin (1 / 2))) = Some (Fin 2597)
   \<and> map_option tokenBPerTokenA
     (normalizePrice PriceNormalizer_new (Fin (3 / 4)) ''WETH'' ''DAI'' (Fin (1 / 2)))
     = Some (Fin (5353 / 2))
   \<and> normalizePrice PriceNormalizer_new (Fin 0) ''WETH'' ''DAI'' (Fin (1 / 2))
     \<noteq> normalizePrice PriceNormalizer_new (Fin (3 / 4)) ''WETH'' ''DAI'' (Fin (1 / 2))"
proof -
  have a: "map_option tokenBPerTokenA
      (normalizePrice PriceNormalizer_new (Fin 0) ''WETH'' ''DAI'' (Fin (1 / 2))) = Some (Fin 2597)"
    by (simp add: normalizePrice_WETH_DAI steps_half result_half substitute_2650)
  have b: "map_option tokenBPerTokenA
      (normalizePrice PriceNormalizer_new (Fin (3 / 4)) ''WETH'' ''DAI'' (Fin (1 / 2)))
      = Some (Fin (5353 / 2))"
    by (simp add: normalizePrice_WETH_DAI steps_half result_half substitute_2650)
  have "normalizePrice PriceNormalizer_new (Fin 0) ''WETH'' ''DAI'' (Fin (1 / 2))
      \<noteq> normalizePrice PriceNormalizer_new (Fin (3 / 4)) ''WETH'' ''DAI'' (Fin (1 / 2))"
  proof
    assume "normalizePrice PriceNormalizer_new (Fin 0) ''WETH'' ''DAI'' (Fin (1 / 2))
      = normalizePrice PriceNormalizer_new (Fin (3 / 4)) ''WETH'' ''DAI'' (Fin (1 / 2))"
    then have "map_option tokenBPerTokenA
        (normalizePrice PriceNormalizer_new (Fin 0) ''WETH'' ''DAI'' (Fin (1 / 2)))
      = map_option tokenBPerTokenA
        (normalizePrice PriceNormalizer_new (Fin (3 / 4)) ''WETH'' ''DAI'' (Fin (1 / 2)))"
      by simp
    then show False unfolding a b by simp
  qed
  with a b show ?thesis by simp
qed

text \<open>
  C6, amended.  When the computed deviation of the price left by the inversion test from
  the expected ratio does not exceed 0.5, the result of \<open>normalizePrice\<close> does not depend
  on the random draw: two calls with the same tokens, raw price and reference table
  return the same object.  In every case the two calls agree on \<open>wasInverted\<close>, the scaled
  price and the expected ratio; only the substituted price and the fields computed from
  it vary with the draw.
\<close>

theorem normalize_deterministic:
  "(\<not> dgt (deviation (fst (inversionStep (fixDecimalScaling pn tokenA tokenB rawPrice)
          (ddiv (usdPriceOr0 pn tokenA) (usdPriceOr0 pn tokenB))))
        (ddiv (usdPriceOr0 pn tokenA) (usdPriceOr0 pn tokenB))) (Fin (1 / 2))
     \<longrightarrow> normalizePrice pn random1 tokenA tokenB rawPrice
         = normalizePrice pn random2 tokenA tokenB rawPrice)
   \<and> map_option wasInverted (normalizePrice pn random1 tokenA tokenB rawPrice)
       = map_option wasInverted (normalizePrice pn random2 tokenA tokenB rawPrice)
   \<and> map_option np_scaledPrice (normalizePrice pn random1 tokenA tokenB rawPrice)
       = map_option np_scaledPrice (normalizePrice pn random2 tokenA tokenB rawPrice)
   \<and> map_option np_expectedRatio (normalizePrice pn random1 tokenA tokenB rawPrice)
       = map_option np_expectedRatio (normalizePrice pn random2 tokenA tokenB rawPrice)"
  by (auto simp: normalizePrice_def Let_def sanityClamp_def split: prod.splits if_splits)

text \<open>A raw WETH/DAI price of 2600 is kept whatever the draw.\<close>

theorem normalize_deterministic_witness:
  "normalizePrice PriceNormalizer_new (Fin 0) ''WETH'' ''DAI'' (Fin 2600)
     = normalizePrice PriceNormalizer_new (Fin (3 / 4)) ''WETH'' ''DAI'' (Fin 2600)
   \<and> map_option tokenBPerTokenA
       (normalizePrice PriceNormalizer_new (Fin 0) ''WETH'' ''DAI'' (Fin 2600))
       = Some (Fin 2600)"
proof -
  have "\<not> dgt (deviation (fst (inversionStep
          (fixDecimalScaling PriceNormalizer_new ''WETH'' ''DAI'' (Fin 2600))
          (ddiv (usdPriceOr0 PriceNormalizer_new ''WETH'') (usdPriceOr0 PriceNormalizer_new ''DAI''))))
        (ddiv (usdPriceOr0 PriceNormalizer_new ''WETH'') (usdPriceOr0 PriceNormalizer_new ''DAI'')))
        (Fin (1 / 2))"
    by (simp add: reference_WETH_DAI ratio_WETH_DAI steps_2600 inversionStep_def)
  with normalize_deterministic [of PriceNormalizer_new "''WETH''" "''DAI''" "Fin 2600"
      "Fin 0" "Fin (3 / 4)"]
  have "normalizePrice PriceNormalizer_new (Fin 0) ''WETH'' ''DAI'' (Fin 2600)
     = normalizePrice PriceNormalizer_new (Fin (3 / 4)) ''WETH'' ''DAI'' (Fin 2600)"
    by blast
  moreover have "map_option tokenBPerTokenA
      (normalizePrice PriceNormalizer_new (Fin 0) ''WETH'' ''DAI'' (Fin 2600)) = Some (Fin 2600)"
    by (simp add: normalizePrice_WETH_DAI steps_2600 inversionStep_def clamp_rests)
  ultimately show ?thesis by simp
qed

section \<open>The profit calculator\<close>

lemma calculateSimpleArbitrageProfit_net:
  "calculateSimpleArbitrageProfit env opportunity tradeAmount = Inr r \<Longrightarrow>
     pr_totalFees r = pr_swapFees r + pr_gasCost r
   \<and> pr_netProfit r = pr_grossProfit r - pr_swapFees r - pr_gasCost r"
  by (auto simp: calculateSimpleArbitrageProfit_def Let_def split: option.splits)

lemma calculateSimpleArbitrageProfit_swapFees:
  "calculateSimpleArbitrageProfit env opportunity tradeAmount = Inr r \<Longrightarrow>
     \<exists>info. SUPPORTED_TOKENS (so_tokenA opportunity) = Some info
       \<and> pr_swapFees r = formatTokenAmount
           (parseTokenAmount tradeAmount (ti_decimals info) * (3 / 1000)
            + parseTokenAmount tradeAmount (ti_decimals info) * buyPrice opportunity * (3 / 1000))
           (ti_decimals info)"
  by (auto simp: calculateSimpleArbitrageProfit_def Let_def calculateOutputAmount_def
      split: option.splits)

text \<open>
  C7.  For the sample candidate (WETH/USDT, buy price 100) and a notional of 1000 the
  swap fees of \<open>calculateSimpleArbitrageProfit\<close> are 303, not 0.6% of the notional (6):
  the fee of the sell leg is taken on the expected output, in base units of token B,
  added to the fee of the buy leg, in base units of token A, and the sum is converted
  with the decimals of token A, which gives \<open>notional * 0.003 * (1 + buyPrice)\<close>.  The net
  profit is the gross profit minus these swap fees minus the gas cost.
\<close>

theorem profit_swap_fees_at_sample:
  "(case calculateSimpleArbitrageProfit sample_profit_env sample_candidate 1000 of
      Inl message \<Rightarrow> False
    | Inr r \<Rightarrow> pr_swapFees r = 303
        \<and> pr_swapFees r \<noteq> 1000 * (3 / 1000) * 2
        \<and> pr_gasCost r = 36 / 5
        \<and> pr_netProfit r = pr_grossProfit r - pr_swapFees r - pr_gasCost r)"
  by (simp add: calculateSimpleArbitrageProfit_def Let_def calculateOutputAmount_def
      SUPPORTED_TOKENS_def sample_candidate_def sample_profit_env_def bignumber_defs
      calculateGasCost_def GAS_LIMITS_SINGLE_SWAP_def getGasPriceWithBuffer_def
      calculateROI_def calculatePriceImpact_def)

section \<open>The simulation cache\<close>

lemma getCachedResult_hit:
  assumes "simulationCache sim key = Some e" "t - ce_timestamp e < cacheTimeout sim"
  shows "getCachedResult sim t key =
    (Some (ce_result e), sim\<lparr> cacheRequests := cacheRequests sim + 1,
       cacheHits := cacheHits sim + 1 \<rparr>)"
  using assms by (simp add: getCachedResult_def Let_def)

lemma getCachedResult_cases:
  "(\<exists>e. simulationCache sim key = Some e \<and> t - ce_timestamp e < cacheTimeout sim
        \<and> getCachedResult sim t key =
          (Some (ce_result e), sim\<lparr> cacheRequests := cacheRequests sim + 1,
             cacheHits := cacheHits sim + 1 \<rparr>))
   \<or> getCachedResult sim t key = (None, sim\<lparr> cacheRequests := cacheRequests sim + 1 \<rparr>)"
  by (auto simp: getCachedResult_def Let_def split: option.splits)

lemma simulate_unfold:
  "simulate sim env opportunity tradeAmount =
     (case getCachedResult sim (t_lookup env) (opportunityKey opportunity tradeAmount) of
        (Some cached, sim1) \<Rightarrow> (cached, sim1)
      | (None, sim1) \<Rightarrow>
          (case opportunity of
             Simple s \<Rightarrow> finishSimulation sim1 env (opportunityKey opportunity tradeAmount)
               ''simple'' (simpleSimulation env s tradeAmount)
           | Triangular t \<Rightarrow> finishSimulation sim1 env (opportunityKey opportunity tradeAmount)
               ''triangular'' (triangularSimulation env t tradeAmount)))"
  by (cases opportunity)
    (simp_all add: simulate_def simulateSimpleArbitrage_def simulateTriangularArbitrage_def
      opportunityKey_def Let_def split: prod.splits option.splits)

lemma finishSimulation_Success:
  assumes "finishSimulation sim env key type outcome = (Success r, sim1)"
  shows "simulationCache sim1 key = Some \<lparr> ce_result = Success r, ce_timestamp = t_store env \<rparr>
    \<and> cacheTimeout sim1 = cacheTimeout sim"
  using assms by (auto simp: finishSimulation_def setCachedResult_def split: sum.splits)

lemma finishSimulation_Failure:
  assumes "finishSimulation sim env key type outcome = (Failure m ty t, sim1)"
  shows "sim1 = sim \<and> t = t_result env"
  using assms by (auto simp: finishSimulation_def split: sum.splits)

lemma simulate_Success_cached:
  assumes "simulate sim env opportunity tradeAmount = (Success r, sim1)"
  shows "\<exists>e. simulationCache sim1 (opportunityKey opportunity tradeAmount) = Some e
    \<and> ce_result e = Success r \<and> cacheTimeout sim1 = cacheTimeout sim
    \<and> (fst (getCachedResult sim (t_lookup env) (opportunityKey opportunity tradeAmount)) = None
        \<longrightarrow> ce_timestamp e = t_store env)"
proof -
  let ?key = "opportunityKey opportunity tradeAmount"
  from getCachedResult_cases [of sim ?key "t_lookup env"] show ?thesis
  proof (elim disjE exE conjE)
    fix e
    assume e: "simulationCache sim ?key = Some e"
      and hit: "getCachedResult sim (t_lookup env) ?key =
        (Some (ce_result e), sim\<lparr> cacheRequests := cacheRequests sim + 1,
           cacheHits := cacheHits sim + 1 \<rparr>)"
    from assms hit have "ce_result e = Success r"
      and "sim1 = sim\<lparr> cacheRequests := cacheRequests sim + 1, cacheHits := cacheHits sim + 1 \<rparr>"
      by (simp_all add: simulate_unfold)
    with e hit show ?thesis by simp
  next
    assume miss: "getCachedResult sim (t_lookup env) ?key =
        (None, sim\<lparr> cacheRequests := cacheRequests sim + 1 \<rparr>)"
    with assms obtain type outcome where
      "finishSimulation (sim\<lparr> cacheRequests := cacheRequests sim + 1 \<rparr>) env ?key type outcome
         = (Success r, sim1)"
      by (cases opportunity) (auto simp: simulate_unfold)
    from finishSimulation_Success [OF this] show ?thesis by simp
  qed
qed

lemma supported_sample_tokens:
  "SUPPORTED_TOKENS ''USDC'' = Some \<lparr> ti_address = ''0xa0b86A33E542873CD17B062F78dEAd58c6B26cC8'',
     ti_symbol = ''USDC'', ti_name = ''USD Coin'', ti_decimals = 6 \<rparr>"
  "SUPPORTED_TOKENS ''USDT'' = Some \<lparr> ti_address = ''0xdAC17F958D2ee523a2206206994597C13D831ec7'',
     ti_symbol = ''USDT'', ti_name = ''Tether USD'', ti_decimals = 6 \<rparr>"
  by (simp_all add: SUPPORTED_TOKENS_def)

lemma simpleSimulation_no_pool:
  "simpleSimulation (sample_sim_env False t) sample_trade 1000 =
     Inl ''Pool information not available''"
  by (simp add: simpleSimulation_def Let_def supported_sample_tokens sample_trade_def
      sample_sim_env_def)

lemma sample_key:
  "opportunityKey (Simple sample_trade) tradeAmount = (''simple'', ''k3j9x2m1q'', tradeAmount)"
  by (simp add: opportunityKey_def getCacheKey_def sample_trade_def)

lemma sample_clock:
  "t_lookup (sample_sim_env live t) = t" "t_result (sample_sim_env live t) = t + 1"
  "t_store (sample_sim_env live t) = t + 2"
  by (simp_all add: sample_sim_env_def)

lemma simulate_no_pool:
  "simulationCache sim (''simple'', ''k3j9x2m1q'', 1000) = None \<Longrightarrow>
   simulate sim (sample_sim_env False t) (Simple sample_trade) 1000 =
     (Failure ''Pool information not available'' ''simple'' (t + 1),
      sim\<lparr> cacheRequests := cacheRequests sim + 1 \<rparr>)"
  by (simp add: simulate_unfold sample_key sample_clock getCachedResult_def Let_def
      simpleSimulation_no_pool finishSimulation_def)

text \<open>
  C8 as stated fails: a failed simulation is not cached.  With no pool known, two calls
  for the same sample trade and notional, five seconds apart, both miss the cache and
  return failure objects with different timestamps.
\<close>

theorem cache_idempotence_counterexample:
  "fst (simulate TradeSimulator_new (sample_sim_env False 1000) (Simple sample_trade) 1000)
     = Failure ''Pool information not available'' ''simple'' 1001
   \<and> fst (simulate
       (snd (simulate TradeSimulator_new (sample_sim_env False 1000) (Simple sample_trade) 1000))
       (sample_sim_env False 6000) (Simple sample_trade) 1000)
     = Failure ''Pool information not available'' ''simple'' 6001
   \<and> t_lookup (sample_sim_env False 6000) - t_lookup (sample_sim_env False 1000)
       < cacheTimeout TradeSimulator_new
   \<and> cacheHits (snd (simulate
       (snd (simulate TradeSimulator_new (sample_sim_env False 1000) (Simple sample_trade) 1000))
       (sample_sim_env False 6000) (Simple sample_trade) 1000)) = 0"
  by (simp add: simulate_no_pool sample_clock TradeSimulator_new_def)

text \<open>
  C8, amended.  If a simulate call returns a successful result, the cache then holds
  that result under the key of (type, opportunityId, notional), stored at the time of
  \<open>setCachedResult\<close> when the call was a miss, and every later call for the same key on the
  unchanged simulator whose lookup time is less than \<open>cacheTimeout\<close> after the stored
  time returns the identical result from the cache: the cache is not rewritten and the
  request and hit counters are incremented.  A call that returns a failure leaves the
  cache without an entry for it.
\<close>

theorem cache_idempotence:
  "(\<forall>r sim1. simulate sim env opportunity tradeAmount = (Success r, sim1) \<longrightarrow>
      (\<exists>e. simulationCache sim1 (opportunityKey opportunity tradeAmount) = Some e
         \<and> ce_result e = Success r
         \<and> cacheTimeout sim1 = cacheTimeout sim
         \<and> (fst (getCachedResult sim (t_lookup env) (opportunityKey opportunity tradeAmount)) = None
              \<longrightarrow> ce_timestamp e = t_store env)
         \<and> (\<forall>env2. t_lookup env2 - ce_timestamp e < cacheTimeout sim1 \<longrightarrow>
               simulate sim1 env2 opportunity tradeAmount =
                 (Success r, sim1\<lparr> cacheRequests := cacheRequests sim1 + 1,
                    cacheHits := cacheHits sim1 + 1 \<rparr>))))
   \<and> (\<forall>m ty t sim1. simulate sim env opportunity tradeAmount = (Failure m ty t, sim1)
        \<and> fst (getCachedResult sim (t_lookup env) (opportunityKey opportunity tradeAmount)) = None
        \<longrightarrow> simulationCache sim1 = simulationCache sim)"
proof (intro conjI allI impI)
  fix r sim1
  assume first: "simulate sim env opportunity tradeAmount = (Success r, sim1)"
  let ?key = "opportunityKey opportunity tradeAmount"
  from simulate_Success_cached [OF first] obtain e where
    e: "simulationCache sim1 ?key = Some e" and res: "ce_result e = Success r"
    and timeout: "cacheTimeout sim1 = cacheTimeout sim"
    and stored: "fst (getCachedResult sim (t_lookup env) ?key) = None
      \<longrightarrow> ce_timestamp e = t_store env"
    by (elim exE conjE)
  have later: "\<forall>env2. t_lookup env2 - ce_timestamp e < cacheTimeout sim1 \<longrightarrow>
      simulate sim1 env2 opportunity tradeAmount =
        (Success r, sim1\<lparr> cacheRequests := cacheRequests sim1 + 1,
           cacheHits := cacheHits sim1 + 1 \<rparr>)"
  proof (intro allI impI)
    fix env2 :: SimulatorEnv
    assume "t_lookup env2 - ce_timestamp e < cacheTimeout sim1"
    from getCachedResult_hit [OF e this] res
    show "simulate sim1 env2 opportunity tradeAmount =
        (Success r, sim1\<lparr> cacheRequests := cacheRequests sim1 + 1,
           cacheHits := cacheHits sim1 + 1 \<rparr>)"
      by (simp add: simulate_unfold)
  qed
  from e res timeout stored later
  show "\<exists>e. simulationCache sim1 ?key = Some e \<and> ce_result e = Success r
      \<and> cacheTimeout sim1 = cacheTimeout sim
      \<and> (fst (getCachedResult sim (t_lookup env) ?key) = None \<longrightarrow> ce_timestamp e = t_store env)
      \<and> (\<forall>env2. t_lookup env2 - ce_timestamp e < cacheTimeout sim1 \<longrightarrow>
            simulate sim1 env2 opportunity tradeAmount =
              (Success r, sim1\<lparr> cacheRequests := cacheRequests sim1 + 1,
                 cacheHits := cacheHits sim1 + 1 \<rparr>))"
    by (intro exI [of _ e] conjI)
next
  fix m ty t sim1
  let ?key = "opportunityKey opportunity tradeAmount"
  assume a: "simulate sim env opportunity tradeAmount = (Failure m ty t, sim1)
      \<and> fst (getCachedResult sim (t_lookup env) ?key) = None"
  with getCachedResult_cases [of sim ?key "t_lookup env"]
  have miss: "getCachedResult sim (t_lookup env) ?key =
      (None, sim\<lparr> cacheRequests := cacheRequests sim + 1 \<rparr>)"
    by auto
  with a obtain type outcome where
    "finishSimulation (sim\<lparr> cacheRequests := cacheRequests sim + 1 \<rparr>) env ?key type outcome
       = (Failure m ty t, sim1)"
    by (cases opportunity) (auto simp: simulate_unfold)
  from finishSimulation_Failure [OF this] show "simulationCache sim1 = simulationCache sim"
    by simp
qed

lemma simpleSimulation_live:
  "simpleSimulation (sample_sim_env True t) sample_trade 1000 = Inr (sample_result (t + 1))"
  by (simp add: simpleSimulation_def Let_def supported_sample_tokens sample_trade_def
      sample_sim_env_def simulateSwap_def getQuoterAddress_def FEE_TIERS_MEDIUM_def
      sim_estimateGasCost_def bignumber_defs sample_result_def)

lemma simulate_live:
  "simulate TradeSimulator_new (sample_sim_env True 1000) (Simple sample_trade) 1000 =
     (Success (sample_result 1001), sample_simulator)"
  by (simp add: simulate_unfold sample_key sample_clock getCachedResult_def Let_def
      simpleSimulation_live finishSimulation_def setCachedResult_def TradeSimulator_new_def
      sample_simulator_def)

text \<open>
  A successful simulation at time 1000 is stored at 1002; the call at 6000 returns the
  object made at 1001, not a new one, and counts a cache hit.  A failed simulation
  leaves the cache empty.
\<close>

theorem cache_idempotence_witness:
  "simulate TradeSimulator_new (sample_sim_env True 1000) (Simple sample_trade) 1000 =
     (Success (sample_result 1001), sample_simulator)
   \<and> simulate sample_simulator (sample_sim_env True 6000) (Simple sample_trade) 1000 =
     (Success (sample_result 1001),
      sample_simulator\<lparr> cacheRequests := 2, cacheHits := 1 \<rparr>)
   \<and> simulationCache
       (snd (simulate TradeSimulator_new (sample_sim_env False 1000) (Simple sample_trade) 1000))
     = Map.empty"
proof -
  note idem = cache_idempotence [of TradeSimulator_new "sample_sim_env True 1000"
      "Simple sample_trade" 1000]
  have miss: "fst (getCachedResult TradeSimulator_new (t_lookup (sample_sim_env True 1000))
      (opportunityKey (Simple sample_trade) 1000)) = None"
    by (simp add: getCachedResult_def Let_def TradeSimulator_new_def)
  from idem simulate_live obtain e where
    e: "simulationCache sample_simulator (opportunityKey (Simple sample_trade) 1000) = Some e"
    and stored: "fst (getCachedResult TradeSimulator_new (t_lookup (sample_sim_env True 1000))
        (opportunityKey (Simple sample_trade) 1000)) = None
      \<longrightarrow> ce_timestamp e = t_store (sample_sim_env True 1000)"
    and later: "\<forall>env2. t_lookup env2 - ce_timestamp e < cacheTimeout sample_simulator \<longrightarrow>
      simulate sample_simulator env2 (Simple sample_trade) 1000 =
        (Success (sample_result 1001),
         sample_simulator\<lparr> cacheRequests := cacheRequests sample_simulator + 1,
           cacheHits := cacheHits sample_simulator + 1 \<rparr>)"
    by auto
  from stored miss have "ce_timestamp e = 1002" by (simp add: sample_clock)
  then have "t_lookup (sample_sim_env True 6000) - ce_timestamp e < cacheTimeout sample_simulator"
    by (simp add: sample_clock sample_simulator_def)
  with later have second: "simulate sample_simulator (sample_sim_env True 6000)
      (Simple sample_trade) 1000 =
        (Success (sample_result 1001),
         sample_simulator\<lparr> cacheRequests := cacheRequests sample_simulator + 1,
           cacheHits := cacheHits sample_simulator + 1 \<rparr>)"
    by blast
  have failed: "simulate TradeSimulator_new (sample_sim_env False 1000) (Simple sample_trade) 1000 =
      (Failure ''Pool information not available'' ''simple'' 1001,
       TradeSimulator_new\<lparr> cacheRequests := cacheRequests TradeSimulator_new + 1 \<rparr>)"
    by (simp add: simulate_no_pool TradeSimulator_new_def)
  have miss': "fst (getCachedResult TradeSimulator_new (t_lookup (sample_sim_env False 1000))
      (opportunityKey (Simple sample_trade) 1000)) = None"
    by (simp add: getCachedResult_def Let_def TradeSimulator_new_def)
  from cache_idempotence [of TradeSimulator_new "sample_sim_env False 1000"
      "Simple sample_trade" 1000] failed miss'
  have "simulationCache
       (snd (simulate TradeSimulator_new (sample_sim_env False 1000) (Simple sample_trade) 1000))
     = simulationCache TradeSimulator_new"
    by simp
  then have empty: "simulationCache
       (snd (simulate TradeSimulator_new (sample_sim_env False 1000) (Simple sample_trade) 1000))
     = Map.empty"
    by (simp add: TradeSimulator_new_def)
  from second have "simulate sample_simulator (sample_sim_env True 6000) (Simple sample_trade) 1000 =
     (Success (sample_result 1001), sample_simulator\<lparr> cacheRequests := 2, cacheHits := 1 \<rparr>)"
    by (simp add: sample_simulator_def)
  with simulate_live empty show ?thesis by simp
qed

section \<open>Simulation with slippage\<close>










section \<open>V2 observations and the queries of the price cache\<close>

lemma map_of_mapSet: "map_of (mapSet m k v) k' = (if k' = k then Some v else map_of m k')"
  by (induction m) auto

lemma v2_key_distinct:
  "getPriceKey ''SUSHISWAP_V2'' ta tb n \<noteq> getPriceKey ''UNISWAP_V3'' a b t"
  "getPriceKey ''SUSHISWAP_V2'' ta tb n \<noteq> getPriceKey ''SUSHISWAP_V3'' a b t"
  by (simp_all add: getPriceKey_def)

lemma firstAvailable_agree:
  "(\<forall>t \<in> set tiers. map_of ps' (getPriceKey d a b t) = map_of ps (getPriceKey d a b t)) \<Longrightarrow>
   firstAvailable ps' d a b tiers = firstAvailable ps d a b tiers"
  by (induction tiers) (auto split: option.splits)

lemma getPrice_agree:
  assumes "\<forall>t \<in> set [500, 3000, 10000].
      map_of (prices pf') (getPriceKey d a b t) = map_of (prices pf) (getPriceKey d a b t)"
  shows "getPrice pf' d a b None = getPrice pf d a b None"
  unfolding getPrice_def option.case using assms by (rule firstAvailable_agree)

lemma allPricesLoop_agree:
  "(\<forall>d \<in> set ds. getPrice pf' d a b None = getPrice pf d a b None) \<Longrightarrow>
   allPricesLoop pf' a b ds = allPricesLoop pf a b ds"
  by (induction ds) (auto split: option.splits)

lemma bestPriceLoop_agree:
  "(\<forall>d \<in> set ds. getPrice pf' d a b None = getPrice pf d a b None) \<Longrightarrow>
   bestPriceLoop pf' a b ds best = bestPriceLoop pf a b ds best"
  by (induction ds arbitrary: best) (auto split: option.splits)

lemma queries_agree:
  assumes "\<forall>d \<in> set queriedDexes. getPrice pf' d a b None = getPrice pf d a b None"
  shows "getAllPrices pf' a b = getAllPrices pf a b"
    and "getBestPrice pf' a b = getBestPrice pf a b"
  unfolding getAllPrices_def getBestPrice_def
  using assms by (rule allPricesLoop_agree, rule bestPriceLoop_agree)

lemma updatePriceV2_prices:
  assumes "updatePriceV2 pf env dexName ta tb = (r, pf')"
  shows "(r = None \<and> pf' = pf)
    \<or> (\<exists>pd. r = Some pd \<and> pd_dex pd = dexName
          \<and> prices pf' = mapSet (prices pf) (getPriceKey dexName ta tb 3000) pd)"
proof (cases "v2_price env")
  case None
  with assms show ?thesis by (simp add: updatePriceV2_def)
next
  case (Some p)
  note price = this
  show ?thesis
  proof (cases "p = 0")
    case True
    with price assms show ?thesis by (simp add: updatePriceV2_def)
  next
    case False
    show ?thesis
    proof (cases "v2_blockNumber env")
      case None
      with price False assms show ?thesis by (simp add: updatePriceV2_def)
    next
      case (Some block)
      let ?pd = "\<lparr> pd_dex = dexName, pd_tokenA = ta, pd_tokenB = tb,
            pd_feeTier = 3000, pd_price = p, pd_liquidity = ''1000000000'',
            pd_blockNumber = block, pd_timestamp = v2_now env \<rparr>"
      let ?pf = "pf\<lparr> prices := mapSet (prices pf) (getPriceKey dexName ta tb 3000) ?pd,
              priceHistory := (priceHistory pf)(getPriceKey dexName ta tb 3000 \<mapsto>
                pushHistory (priceHistory pf (getPriceKey dexName ta tb 3000)) ?pd) \<rparr>"
      from Some price False
      have "updatePriceV2 pf env dexName ta tb = (Some ?pd, ?pf)"
        by (simp add: updatePriceV2_def Let_def)
      then have both: "r = Some ?pd \<and> pf' = ?pf"
        unfolding assms prod.inject .
      have stored: "prices ?pf = mapSet (prices pf) (getPriceKey dexName ta tb 3000) ?pd"
        by simp
      have venue: "pd_dex ?pd = dexName" by simp
      from both stored venue show ?thesis by blast
    qed
  qed
qed

lemma updatePriceV2_stored:
  assumes "updatePriceV2 pf env dexName ta tb = (Some pd, pf')"
  shows "pd_dex pd = dexName \<and> map_of (prices pf') (getPriceKey dexName ta tb 3000) = Some pd"
  using updatePriceV2_prices [OF assms] by (auto simp: map_of_mapSet)

lemma v2_write_frame:
  assumes "updateAllPrices_V2 pf env ta tb = (r, pf')"
  shows "\<forall>d \<in> set queriedDexes. getPrice pf' d a b None = getPrice pf d a b None"
proof -
  from assms have w: "updatePriceV2 pf env ''SUSHISWAP_V2'' ta tb = (r, pf')"
    by (simp add: updateAllPrices_V2_def)
  have same: "map_of (prices pf') (getPriceKey d a b t) = map_of (prices pf) (getPriceKey d a b t)"
    if d: "d = ''UNISWAP_V3'' \<or> d = ''SUSHISWAP_V3''" for d t
  proof -
    from d v2_key_distinct [of ta tb 3000 a b t]
    have ne: "getPriceKey d a b t \<noteq> getPriceKey ''SUSHISWAP_V2'' ta tb 3000"
      by (elim disjE) (simp_all add: neq_commute)
    from updatePriceV2_prices [OF w] show ?thesis
    proof (elim disjE exE conjE)
      assume "pf' = pf"
      then show ?thesis by simp
    next
      fix pd
      assume "prices pf' = mapSet (prices pf) (getPriceKey ''SUSHISWAP_V2'' ta tb 3000) pd"
      with ne show ?thesis by (simp add: map_of_mapSet)
    qed
  qed
  have "getPrice pf' d a b None = getPrice pf d a b None"
    if d: "d = ''UNISWAP_V3'' \<or> d = ''SUSHISWAP_V3''" for d
    by (rule getPrice_agree) (simp add: same [OF d])
  then show ?thesis by (simp add: queriedDexes_def)
qed

lemma v2_write_queries:
  assumes "updateAllPrices_V2 pf env ta tb = (r, pf')"
  shows "getAllPrices pf' a b = getAllPrices pf a b"
    and "getBestPrice pf' a b = getBestPrice pf a b"
  using v2_write_frame [OF assms, of a b] by (rule queries_agree)+

lemma mapSet_member: "(k, v) \<in> set (mapSet m k v)"
  by (induction m) auto

lemma updatePriceV2_observation:
  assumes "updatePriceV2 pf env dexName ta tb = (Some pd, pf')"
  shows "pd_tokenA pd = ta \<and> pd_tokenB pd = tb \<and> pd \<in> set (map snd (prices pf'))"
proof -
  from updatePriceV2_prices [OF assms]
  have stored: "prices pf' = mapSet (prices pf) (getPriceKey dexName ta tb 3000) pd"
    by simp
  have "(getPriceKey dexName ta tb 3000, pd) \<in> set (prices pf')"
    unfolding stored by (rule mapSet_member)
  then have mem: "pd \<in> set (map snd (prices pf'))" by force
  from assms have "pd_tokenA pd = ta \<and> pd_tokenB pd = tb"
    by (auto simp: updatePriceV2_def Let_def split: option.splits if_splits)
  with mem show ?thesis by simp
qed

lemma detect_pools_before_v2:
  "detectSimpleArbitrage_pools sample_env (sample_cache 95 95) ''WETH'' ''USDT'' = None"
  by (simp add: detectSimpleArbitrage_pools_def relevantPrices_def getAllPricesMap_def
      sample_cache_def normalized_def poolId_def string_of_nat_tiers detector_defs)

lemma detect_pools_after_v2:
  "map_option po_sellPool (detectSimpleArbitrage_pools sample_env
      (snd (updateAllPrices_V2 (sample_cache 95 95) sample_v2_env ''WETH'' ''USDT''))
      ''WETH'' ''USDT'') = Some ''SUSHISWAP_V2_WETH_USDT_3000''"
  "map_option po_sellPrice (detectSimpleArbitrage_pools sample_env
      (snd (updateAllPrices_V2 (sample_cache 95 95) sample_v2_env ''WETH'' ''USDT''))
      ''WETH'' ''USDT'') = Some 105"
  by (simp_all add: detectSimpleArbitrage_pools_def relevantPrices_def getAllPricesMap_def
      updateAllPrices_V2_def updatePriceV2_def sample_v2_env_def getPriceKey_def
      sample_cache_def normalized_def poolId_def string_of_nat_tiers detector_defs
      bignumber_defs)

text \<open>
  C10, as stated, fails for the scanner version whose simple scan iterates the whole
  cache.  With UNISWAP_V3 and SUSHISWAP_V3 both at 95 that scan returns nothing; after
  the V2 polling step has written an observation at 105 it returns a candidate that sells
  at 105 in the pool \<open>SUSHISWAP_V2_WETH_USDT_3000\<close>.
\<close>

theorem v2_observation_counterexample:
  "detectSimpleArbitrage_pools sample_env (sample_cache 95 95) ''WETH'' ''USDT'' = None
   \<and> map_option po_sellPool (detectSimpleArbitrage_pools sample_env
       (snd (updateAllPrices_V2 (sample_cache 95 95) sample_v2_env ''WETH'' ''USDT''))
       ''WETH'' ''USDT'') = Some ''SUSHISWAP_V2_WETH_USDT_3000''
   \<and> map_option po_sellPrice (detectSimpleArbitrage_pools sample_env
       (snd (updateAllPrices_V2 (sample_cache 95 95) sample_v2_env ''WETH'' ''USDT''))
       ''WETH'' ''USDT'') = Some 105"
  using detect_pools_before_v2 detect_pools_after_v2 by simp

text \<open>
  C10, amended.  \<open>getAllPrices\<close> and \<open>getBestPrice\<close> depend only on the cache entries under
  the keys of the venues \<open>UNISWAP_V3\<close> and \<open>SUSHISWAP_V3\<close> (fee tiers 500, 3000, 10000): two
  caches that agree on those keys give the same answers.  The V2 polling step of
  \<open>updateAllPrices\<close> stores its observation under the venue name \<open>SUSHISWAP_V2\<close>, whose key
  is none of those, so for every pair the answers of both queries, and hence the results of
  the triangular scan and of the simple scan of \<open>arbitrage-detector/index.js\<close>, are the
  same after the write as before.  The observation is, however, among the observations
  that the simple scan over all pools considers for its pair.
\<close>

theorem v2_observation_unseen:
  "(\<forall>pf'. (\<forall>d \<in> set [''UNISWAP_V3'', ''SUSHISWAP_V3'']. \<forall>t \<in> set [500, 3000, 10000].
            map_of (prices pf') (getPriceKey d a b t) = map_of (prices pf) (getPriceKey d a b t))
        \<longrightarrow> getAllPrices pf' a b = getAllPrices pf a b
          \<and> getBestPrice pf' a b = getBestPrice pf a b)
   \<and> (\<forall>env ta tb r pf'. updateAllPrices_V2 pf env ta tb = (r, pf') \<longrightarrow>
        (\<forall>pd. r = Some pd \<longrightarrow> pd_dex pd = ''SUSHISWAP_V2''
           \<and> map_of (prices pf') (getPriceKey ''SUSHISWAP_V2'' ta tb 3000) = Some pd
           \<and> pd \<in> set (relevantPrices pf' ta tb))
        \<and> getAllPrices pf' a b = getAllPrices pf a b
        \<and> getBestPrice pf' a b = getBestPrice pf a b
        \<and> detectSimpleArbitrage denv pf' a b = detectSimpleArbitrage denv pf a b
        \<and> detectTriangularPath denv pf' cycle = detectTriangularPath denv pf cycle)"
proof (intro conjI allI impI)
  fix pf' :: PriceFetcher
  assume agree: "\<forall>d \<in> set [''UNISWAP_V3'', ''SUSHISWAP_V3'']. \<forall>t \<in> set [500, 3000, 10000].
      map_of (prices pf') (getPriceKey d a b t) = map_of (prices pf) (getPriceKey d a b t)"
  have "getPrice pf' d a b None = getPrice pf d a b None"
    if d: "d = ''UNISWAP_V3'' \<or> d = ''SUSHISWAP_V3''" for d
    by (rule getPrice_agree) (use agree d in auto)
  then have all: "\<forall>d \<in> set queriedDexes. getPrice pf' d a b None = getPrice pf d a b None"
    by (simp add: queriedDexes_def)
  from all show "getAllPrices pf' a b = getAllPrices pf a b" by (rule queries_agree)
  from all show "getBestPrice pf' a b = getBestPrice pf a b" by (rule queries_agree)
next
  fix env ta tb r pf' pd
  assume w: "updateAllPrices_V2 pf env ta tb = (r, pf')" and r: "r = Some pd"
  then have "updatePriceV2 pf env ''SUSHISWAP_V2'' ta tb = (Some pd, pf')"
    by (simp add: updateAllPrices_V2_def)
  note stored = this
  from updatePriceV2_stored [OF stored]
  show "pd_dex pd = ''SUSHISWAP_V2''"
    and "map_of (prices pf') (getPriceKey ''SUSHISWAP_V2'' ta tb 3000) = Some pd" by simp_all
  from updatePriceV2_observation [OF stored]
  show "pd \<in> set (relevantPrices pf' ta tb)"
    by (simp add: relevantPrices_def getAllPricesMap_def)
next
  fix env ta tb r pf'
  assume w: "updateAllPrices_V2 pf env ta tb = (r, pf')"
  show "getAllPrices pf' a b = getAllPrices pf a b" by (rule v2_write_queries(1) [OF w])
  show "getBestPrice pf' a b = getBestPrice pf a b" by (rule v2_write_queries(2) [OF w])
  show "detectSimpleArbitrage denv pf' a b = detectSimpleArbitrage denv pf a b"
    unfolding detectSimpleArbitrage_def v2_write_queries(1) [OF w] ..
  show "detectTriangularPath denv pf' cycle = detectTriangularPath denv pf cycle"
    unfolding detectTriangularPath_def v2_write_queries(2) [OF w] ..
qed

text \<open>
  After a V2 observation of WETH/USDT at 105 is written into the sample cache it is
  stored under its V2 key and is one of the cached observations of its pair, and
  \<open>getAllPrices\<close> still returns the two V3 observations.
\<close>

theorem v2_observation_unseen_witness:
  "map_option pd_price (fst (updateAllPrices_V2 (sample_cache 100 110) sample_v2_env ''WETH'' ''USDT''))
     = Some 105
   \<and> map_option pd_price
       (map_of (prices (snd (updateAllPrices_V2 (sample_cache 100 110) sample_v2_env ''WETH'' ''USDT'')))
          ''SUSHISWAP_V2:WETH-USDT:3000'') = Some 105
   \<and> 105 \<in> pd_price ` set (relevantPrices
       (snd (updateAllPrices_V2 (sample_cache 100 110) sample_v2_env ''WETH'' ''USDT''))
       ''WETH'' ''USDT'')
   \<and> getAllPrices (snd (updateAllPrices_V2 (sample_cache 100 110) sample_v2_env ''WETH'' ''USDT''))
       ''WETH'' ''USDT'' =
     [(''UNISWAP_V3'', sample_observation ''UNISWAP_V3'' ''WETH'' ''USDT'' 100),
      (''SUSHISWAP_V3'', sample_observation ''SUSHISWAP_V3'' ''WETH'' ''USDT'' 110)]"
proof -
  have written: "map_option pd_price
      (fst (updateAllPrices_V2 (sample_cache 100 110) sample_v2_env ''WETH'' ''USDT'')) = Some 105"
    by (simp add: updateAllPrices_V2_def updatePriceV2_def Let_def sample_v2_env_def)
  obtain r pf' where w:
    "updateAllPrices_V2 (sample_cache 100 110) sample_v2_env ''WETH'' ''USDT'' = (r, pf')"
    by (cases "updateAllPrices_V2 (sample_cache 100 110) sample_v2_env ''WETH'' ''USDT''")
  from written w obtain pd where pd: "r = Some pd" and price: "pd_price pd = 105"
    by (cases r) simp_all
  note unseen = v2_observation_unseen [of "''WETH''" "''USDT''" "sample_cache 100 110"]
  from unseen w pd
  have stored: "map_of (prices pf') (getPriceKey ''SUSHISWAP_V2'' ''WETH'' ''USDT'' 3000) = Some pd"
    by blast
  from unseen w pd
  have "pd \<in> set (relevantPrices pf' ''WETH'' ''USDT'')"
    by blast
  with price have considered: "105 \<in> pd_price ` set (relevantPrices pf' ''WETH'' ''USDT'')"
    by force
  from unseen w have same: "getAllPrices pf' ''WETH'' ''USDT''
      = getAllPrices (sample_cache 100 110) ''WETH'' ''USDT''"
    by blast
  have key: "getPriceKey ''SUSHISWAP_V2'' ''WETH'' ''USDT'' 3000 = ''SUSHISWAP_V2:WETH-USDT:3000''"
    by (simp add: getPriceKey_def string_of_nat_tiers)
  from stored have stored': "map_of (prices pf') ''SUSHISWAP_V2:WETH-USDT:3000'' = Some pd"
    unfolding key .
  from written stored' price considered same show ?thesis
    unfolding w by (simp add: getAllPrices_sample)
qed

end
